theory Spec2Isabelle
  imports Main
begin

section \<open>Status codes shared by the session service and the gateway\<close>

text \<open>
  The canonical gRPC status codes, in numeric order (\<open>OK\<close> is 0, \<open>Unauthenticated\<close> is 16).
  The Go service names them \<open>codes.InvalidArgument\<close>, \<open>codes.Internal\<close>, \<open>codes.NotFound\<close>;
  the gateway names them \<open>grpc.status.NOT_FOUND\<close>, \<open>grpc.status.ALREADY_EXISTS\<close>,
  \<open>grpc.status.PERMISSION_DENIED\<close>.
\<close>

datatype codes =
    OK | Canceled | Unknown | InvalidArgument | DeadlineExceeded | NotFound
  | AlreadyExists | PermissionDenied | ResourceExhausted | FailedPrecondition
  | Aborted | OutOfRange | Unimplemented | Internal | Unavailable | DataLoss
  | Unauthenticated

section \<open>The gateway: \<open>handleGrpcError\<close> (api-gateway/src/routes/session.routes.js)\<close>

text \<open>
  \<open>handleGrpcError(err, res)\<close> answers with an HTTP status and a JSON body holding a
  message. Three codes have a branch of their own, in this order; every other code falls
  through to the last \<open>return\<close>. The result is the pair of the HTTP status and the message.
\<close>

definition handleGrpcError :: "codes \<Rightarrow> nat \<times> string" where
  "handleGrpcError code =
     (if code = NotFound then (404, ''Resource not found'')
      else if code = AlreadyExists then (409, ''Resource already exists'')
      else if code = PermissionDenied then (403, ''Permission denied'')
      else (500, ''Internal server error''))"

section \<open>The store: the two relations of \<open>initDatabase\<close>\<close>

text \<open>
  The tables are modelled on their \<open>CREATE TABLE\<close> statements: the defaults, the keys, the
  reference with its cascade, the unique pair and the widths of the \<open>VARCHAR\<close> columns. The
  two \<open>INT\<close> columns and the capacity of the messages are 32-bit; they are \<open>int\<close> here, since
  the operations only compare them and move the counter by one between 0 and the capacity.

  A \<open>TIMESTAMP\<close> value is a point on the time line, counted in seconds. The store's
  conversion of a text parameter to a \<open>TIMESTAMP\<close> (it accepts several notations and
  rejects the rest), and Go's \<open>time.Format(time.RFC3339)\<close> behind \<open>formatTimestamp\<close>, are
  library code: the operations below take them as parameters.
\<close>

type_synonym timestamp = int

text \<open>A row of \<open>sessions\<close>; the columns in the order of the \<open>CREATE TABLE\<close>.\<close>

record session_row =
  s_id :: int
  s_title :: string
  s_description :: string
  s_coach_id :: string
  s_coach_name :: string
  s_capacity :: int
  s_reserved_spots :: int
  s_start_time :: timestamp
  s_end_time :: timestamp
  s_location :: string
  s_session_type :: string
  s_difficulty_level :: string
  s_is_cancelled :: bool
  s_created_at :: timestamp
  s_updated_at :: timestamp

text \<open>
  The \<open>status\<close> column is text with default \<open>'confirmed'\<close>; its two values are the two
  states of a reservation.
\<close>

datatype res_status = Confirmed | Cancelled

text \<open>A row of \<open>reservations\<close>.\<close>

record reservation_row =
  r_id :: int
  r_session_id :: int
  r_user_id :: string
  r_user_name :: string
  r_reservation_time :: timestamp
  r_status :: res_status
  r_created_at :: timestamp
  r_updated_at :: timestamp

text \<open>
  The database: the rows of both relations in insertion order, and the next value of the
  sequence behind each \<open>SERIAL\<close> key. A sequence is not rolled back: an insert that has
  drawn its id and is then refused by a constraint (the unique pair, the reference) leaves
  a gap in the ids of \<open>reservations\<close>. The counter here advances with the rows inserted and
  does not record such gaps: in a statement below, the counter of a database stands for the
  next value of its sequence, and no statement depends on the value of an id after a
  refused insert.
\<close>

record db =
  sessions :: "session_row list"
  reservations :: "reservation_row list"
  sessions_id_seq :: int
  reservations_id_seq :: int

definition empty_db :: db where
  "empty_db = \<lparr>sessions = [], reservations = [], sessions_id_seq = 1, reservations_id_seq = 1\<rparr>"

text \<open>What the store answers when it refuses a statement.\<close>

datatype pg_error =
    CharacterNotInRepertoire | InvalidDatetimeFormat | StringDataRightTruncation
  | UniqueViolation | ForeignKeyViolation

subsection \<open>Text parameters\<close>

text \<open>
  The database is in UTF-8. A text parameter is checked when the statement is bound: the
  store refuses a text that holds a zero byte or is not legal UTF-8 (no overlong form, no
  surrogate, nothing above U+10FFFF). The bytes of a text are its \<open>char\<close>s.
\<close>

definition continuation_byte :: "nat \<Rightarrow> bool" where
  "continuation_byte b \<longleftrightarrow> 128 \<le> b \<and> b \<le> 191"

fun utf8_legal :: "nat list \<Rightarrow> bool" where
  "utf8_legal [] = True"
| "utf8_legal (b # bs) =
     (if b = 0 then False
      else if b < 128 then utf8_legal bs
      else if 194 \<le> b \<and> b \<le> 223 then
        (case bs of
           c1 # rest \<Rightarrow> continuation_byte c1 \<and> utf8_legal rest
         | _ \<Rightarrow> False)
      else if 224 \<le> b \<and> b \<le> 239 then
        (case bs of
           c1 # c2 # rest \<Rightarrow>
             (if b = 224 then 160 \<le> c1 \<and> c1 \<le> 191
              else if b = 237 then 128 \<le> c1 \<and> c1 \<le> 159
              else continuation_byte c1) \<and>
             continuation_byte c2 \<and> utf8_legal rest
         | _ \<Rightarrow> False)
      else if 240 \<le> b \<and> b \<le> 244 then
        (case bs of
           c1 # c2 # c3 # rest \<Rightarrow>
             (if b = 240 then 144 \<le> c1 \<and> c1 \<le> 191
              else if b = 244 then 128 \<le> c1 \<and> c1 \<le> 143
              else continuation_byte c1) \<and>
             continuation_byte c2 \<and> continuation_byte c3 \<and> utf8_legal rest
         | _ \<Rightarrow> False)
      else False)"

definition text_ok :: "string \<Rightarrow> bool" where
  "text_ok txt \<longleftrightarrow> utf8_legal (map of_char txt)"

text \<open>
  The width of a \<open>VARCHAR(n)\<close> column counts characters. In a legal text every byte but the
  continuation bytes starts a character. A value of at most \<open>n\<close> characters is stored as it
  is. Of a longer value the store keeps the first \<open>n\<close> characters when all that follows is
  spaces, and refuses the value otherwise.
\<close>

definition char_length :: "string \<Rightarrow> nat" where
  "char_length txt = length (filter (\<lambda>c. \<not> continuation_byte (of_char c)) txt)"

fun take_chars :: "nat \<Rightarrow> string \<Rightarrow> string" where
  "take_chars n [] = []"
| "take_chars n (c # cs) =
     (if continuation_byte (of_char c) then c # take_chars n cs
      else (case n of 0 \<Rightarrow> [] | Suc m \<Rightarrow> c # take_chars m cs))"

definition varchar_in :: "nat \<Rightarrow> string \<Rightarrow> pg_error + string" where
  "varchar_in n txt =
     (if char_length txt \<le> n then Inr txt
      else if \<forall>c \<in> set (drop (length (take_chars n txt)) txt). c = CHR '' ''
      then Inr (take_chars n txt)
      else Inl StringDataRightTruncation)"

text \<open>What a \<open>VARCHAR(n)\<close> column holds of a value it accepts.\<close>

definition stored_varchar :: "nat \<Rightarrow> string \<Rightarrow> string" where
  "stored_varchar n txt = (case varchar_in n txt of Inl err \<Rightarrow> txt | Inr v \<Rightarrow> v)"

text \<open>The six \<open>VARCHAR\<close> columns of \<open>sessions\<close>, in the order of the table.\<close>

definition sessions_varchar_in :: "session_row \<Rightarrow> pg_error + session_row" where
  "sessions_varchar_in row =
     (case varchar_in 255 (s_title row) of Inl err \<Rightarrow> Inl err | Inr title \<Rightarrow>
     (case varchar_in 100 (s_coach_id row) of Inl err \<Rightarrow> Inl err | Inr coach_id \<Rightarrow>
     (case varchar_in 255 (s_coach_name row) of Inl err \<Rightarrow> Inl err | Inr coach_name \<Rightarrow>
     (case varchar_in 255 (s_location row) of Inl err \<Rightarrow> Inl err | Inr location \<Rightarrow>
     (case varchar_in 100 (s_session_type row) of Inl err \<Rightarrow> Inl err | Inr session_type \<Rightarrow>
     (case varchar_in 50 (s_difficulty_level row) of Inl err \<Rightarrow> Inl err | Inr difficulty_level \<Rightarrow>
        Inr (row\<lparr>s_title := title, s_coach_id := coach_id, s_coach_name := coach_name,
                 s_location := location, s_session_type := session_type,
                 s_difficulty_level := difficulty_level\<rparr>)))))))"

subsection \<open>The statements\<close>

text \<open>
  The \<open>INSERT INTO sessions\<close> of \<open>CreateSession\<close>: ten columns are given, the other five take
  their defaults (\<open>id\<close> from the sequence, \<open>reserved_spots\<close> 0, \<open>is_cancelled\<close> false, both
  timestamps \<open>CURRENT_TIMESTAMP\<close>). The parameters are bound in their order: each text is
  checked, and the two times, which arrive as text, are converted. Then the texts are fitted
  to their columns. The statement returns \<open>id, created_at, updated_at\<close>.
\<close>

definition insert_session ::
  "(string \<Rightarrow> timestamp option) \<Rightarrow> timestamp \<Rightarrow> db \<Rightarrow>
   string \<Rightarrow> string \<Rightarrow> string \<Rightarrow> string \<Rightarrow> int \<Rightarrow> string \<Rightarrow> string \<Rightarrow> string \<Rightarrow> string \<Rightarrow> string \<Rightarrow>
   pg_error + ((int \<times> timestamp \<times> timestamp) \<times> db)" where
  "insert_session timestamp_in now d title description coach_id coach_name capacity
       start_time end_time location session_type difficulty_level =
     (if \<not> (text_ok title \<and> text_ok description \<and> text_ok coach_id \<and> text_ok coach_name \<and>
             text_ok start_time)
      then Inl CharacterNotInRepertoire
      else
     (case timestamp_in start_time of
        None \<Rightarrow> Inl InvalidDatetimeFormat
      | Some st \<Rightarrow>
     (if \<not> text_ok end_time then Inl CharacterNotInRepertoire
      else
     (case timestamp_in end_time of
        None \<Rightarrow> Inl InvalidDatetimeFormat
      | Some et \<Rightarrow>
     (if \<not> (text_ok location \<and> text_ok session_type \<and> text_ok difficulty_level)
      then Inl CharacterNotInRepertoire
      else
     (case sessions_varchar_in
             \<lparr>s_id = sessions_id_seq d, s_title = title, s_description = description,
              s_coach_id = coach_id, s_coach_name = coach_name, s_capacity = capacity,
              s_reserved_spots = 0, s_start_time = st, s_end_time = et,
              s_location = location, s_session_type = session_type,
              s_difficulty_level = difficulty_level, s_is_cancelled = False,
              s_created_at = now, s_updated_at = now\<rparr> of
        Inl err \<Rightarrow> Inl err
      | Inr row \<Rightarrow>
          Inr ((sessions_id_seq d, now, now),
               d\<lparr>sessions := sessions d @ [row],
                 sessions_id_seq := sessions_id_seq d + 1\<rparr>)))))))"

text \<open>
  An \<open>INSERT INTO reservations\<close> giving \<open>session_id\<close>, \<open>user_id\<close> and \<open>user_name\<close>; the other
  columns take their defaults, \<open>status\<close> the default \<open>'confirmed'\<close>. The two texts are checked
  and fitted to their columns. Then the table's constraints decide: \<open>UNIQUE(session_id,
  user_id)\<close> refuses a second row for a pair whatever the \<open>status\<close> of the first, and
  \<open>session_id\<close> must reference a row of \<open>sessions\<close>.
\<close>

definition insert_reservation ::
  "timestamp \<Rightarrow> db \<Rightarrow> int \<Rightarrow> string \<Rightarrow> string \<Rightarrow> pg_error + (reservation_row \<times> db)" where
  "insert_reservation now d session_id user_id user_name =
     (if \<not> (text_ok user_id \<and> text_ok user_name) then Inl CharacterNotInRepertoire
      else
     (case varchar_in 100 user_id of Inl err \<Rightarrow> Inl err | Inr uid \<Rightarrow>
     (case varchar_in 255 user_name of Inl err \<Rightarrow> Inl err | Inr uname \<Rightarrow>
        if (session_id, uid) \<in> set (map (\<lambda>r. (r_session_id r, r_user_id r)) (reservations d))
        then Inl UniqueViolation
        else if session_id \<notin> set (map s_id (sessions d)) then Inl ForeignKeyViolation
        else
          let row = \<lparr>r_id = reservations_id_seq d, r_session_id = session_id, r_user_id = uid,
                     r_user_name = uname, r_reservation_time = now, r_status = Confirmed,
                     r_created_at = now, r_updated_at = now\<rparr>
          in Inr (row, d\<lparr>reservations := reservations d @ [row],
                          reservations_id_seq := reservations_id_seq d + 1\<rparr>))))"

text \<open>
  \<open>DELETE FROM sessions WHERE id = ...\<close>: \<open>ON DELETE CASCADE\<close> removes the reservations that
  reference the session with it.
\<close>

definition delete_session :: "db \<Rightarrow> int \<Rightarrow> db" where
  "delete_session d sid =
     d\<lparr>sessions := filter (\<lambda>s. s_id s \<noteq> sid) (sessions d),
       reservations := filter (\<lambda>r. r_session_id r \<noteq> sid) (reservations d)\<rparr>"

text \<open>\<open>DELETE FROM reservations WHERE id = ...\<close>.\<close>

definition delete_reservation :: "db \<Rightarrow> int \<Rightarrow> db" where
  "delete_reservation d rid = d\<lparr>reservations := filter (\<lambda>r. r_id r \<noteq> rid) (reservations d)\<rparr>"

text \<open>
  \<open>DELETE FROM reservations WHERE session_id = ... AND user_id = ... AND status =
  'cancelled'\<close>.
\<close>

definition delete_cancelled :: "db \<Rightarrow> int \<Rightarrow> string \<Rightarrow> db" where
  "delete_cancelled d sid uid =
     d\<lparr>reservations :=
         filter (\<lambda>r. \<not> (r_session_id r = sid \<and> r_user_id r = uid \<and> r_status r = Cancelled))
           (reservations d)\<rparr>"

section \<open>The session service: \<open>CreateSession\<close>\<close>

text \<open>The request message and the \<open>Session\<close> message of the service.\<close>

record CreateSessionRequest =
  req_Title :: string
  req_Description :: string
  req_CoachId :: string
  req_Capacity :: int
  req_StartTime :: string
  req_EndTime :: string
  req_Location :: string
  req_SessionType :: string
  req_DifficultyLevel :: string

record Session =
  Id :: string
  Title :: string
  Description :: string
  CoachId :: string
  CoachName :: string
  Capacity :: int
  ReservedSpots :: int
  StartTime :: string
  EndTime :: string
  Location :: string
  SessionType :: string
  DifficultyLevel :: string
  IsCancelled :: bool
  CreatedAt :: string
  UpdatedAt :: string

text \<open>\<open>fmt.Sprint\<close> of an integer: its decimal digits, with a minus sign when negative.\<close>

fun digits :: "nat \<Rightarrow> string" where
  "digits n = (if n < 10 then [char_of (48 + n)] else digits (n div 10) @ [char_of (48 + n mod 10)])"

definition Sprint :: "int \<Rightarrow> string" where
  "Sprint i = (if i < 0 then CHR ''-'' # digits (nat (- i)) else digits (nat i))"

text \<open>The guard at the head of \<open>CreateSession\<close>: true when the request is refused.\<close>

definition missing_required_fields :: "CreateSessionRequest \<Rightarrow> bool" where
  "missing_required_fields req \<longleftrightarrow>
     req_Title req = '''' \<or> req_CoachId req = '''' \<or> req_Capacity req < 1 \<or>
     req_StartTime req = '''' \<or> req_EndTime req = '''' \<or> req_Location req = '''' \<or>
     req_SessionType req = '''' \<or> req_DifficultyLevel req = ''''"

text \<open>Every text of the request passes the store's check of a text parameter.\<close>

definition request_texts_ok :: "CreateSessionRequest \<Rightarrow> bool" where
  "request_texts_ok req \<longleftrightarrow>
     text_ok (req_Title req) \<and> text_ok (req_Description req) \<and> text_ok (req_CoachId req) \<and>
     text_ok (req_StartTime req) \<and> text_ok (req_EndTime req) \<and> text_ok (req_Location req) \<and>
     text_ok (req_SessionType req) \<and> text_ok (req_DifficultyLevel req)"

text \<open>
  \<open>CreateSession\<close>: the guard, the insert (any error of the store becomes \<open>Internal\<close>), and
  the response built from the request, the literal coach name and the three returned
  columns. On an error nothing is written. The store is taken to answer: a lost connection
  or an expired deadline is outside the model.
\<close>

definition CreateSession ::
  "(string \<Rightarrow> timestamp option) \<Rightarrow> (timestamp \<Rightarrow> string) \<Rightarrow> timestamp \<Rightarrow> db \<Rightarrow>
   CreateSessionRequest \<Rightarrow> codes + (Session \<times> db)" where
  "CreateSession timestamp_in formatTimestamp now d req =
     (if missing_required_fields req then Inl InvalidArgument
      else
        (case insert_session timestamp_in now d (req_Title req) (req_Description req)
               (req_CoachId req) ''Coach Name'' (req_Capacity req) (req_StartTime req)
               (req_EndTime req) (req_Location req) (req_SessionType req)
               (req_DifficultyLevel req) of
          Inl err \<Rightarrow> Inl Internal
        | Inr ((new_id, createdAt, updatedAt), d') \<Rightarrow>
            Inr (\<lparr>Id = Sprint new_id, Title = req_Title req, Description = req_Description req,
                  CoachId = req_CoachId req, CoachName = ''Coach Name'',
                  Capacity = req_Capacity req, ReservedSpots = 0,
                  StartTime = req_StartTime req, EndTime = req_EndTime req,
                  Location = req_Location req, SessionType = req_SessionType req,
                  DifficultyLevel = req_DifficultyLevel req, IsCancelled = False,
                  CreatedAt = formatTimestamp createdAt, UpdatedAt = formatTimestamp updatedAt\<rparr>,
                 d')))"

section \<open>The operations the gateway calls and the service source does not hold\<close>

text \<open>
  The gateway calls \<open>UpdateSession\<close>, \<open>DeleteSession\<close>, \<open>CreateReservation\<close> and
  \<open>CancelReservation\<close>; the service source defines \<open>CreateSession\<close> and \<open>GetSession\<close> only.
  The four are written here from the specification's description of them, as single
  transactions over the store above: a transaction that fails changes nothing.
\<close>

definition find_session :: "db \<Rightarrow> int \<Rightarrow> session_row option" where
  "find_session d sid = find (\<lambda>s. s_id s = sid) (sessions d)"

definition find_reservation :: "db \<Rightarrow> int \<Rightarrow> reservation_row option" where
  "find_reservation d rid = find (\<lambda>r. r_id r = rid) (reservations d)"

text \<open>\<open>UPDATE sessions SET ... WHERE id = sid\<close> and \<open>UPDATE reservations SET ... WHERE id = rid\<close>.\<close>

definition update_session :: "db \<Rightarrow> int \<Rightarrow> (session_row \<Rightarrow> session_row) \<Rightarrow> db" where
  "update_session d sid f = d\<lparr>sessions := map (\<lambda>s. if s_id s = sid then f s else s) (sessions d)\<rparr>"

definition update_reservation :: "db \<Rightarrow> int \<Rightarrow> (reservation_row \<Rightarrow> reservation_row) \<Rightarrow> db" where
  "update_reservation d rid f =
     d\<lparr>reservations := map (\<lambda>r. if r_id r = rid then f r else r) (reservations d)\<rparr>"

text \<open>An active reservation is one whose status is confirmed.\<close>

definition has_active_reservation :: "db \<Rightarrow> int \<Rightarrow> string \<Rightarrow> bool" where
  "has_active_reservation d sid uid \<longleftrightarrow>
     (\<exists>r \<in> set (reservations d). r_session_id r = sid \<and> r_user_id r = uid \<and> r_status r = Confirmed)"

definition active_count :: "db \<Rightarrow> int \<Rightarrow> int" where
  "active_count d sid =
     int (length (filter (\<lambda>r. r_session_id r = sid \<and> r_status r = Confirmed) (reservations d)))"

text \<open>
  Modelled from the spec: \<open>CreateReservation(session_id, user_id)\<close>, absent from the
  service source. The four checks in the order the specification numbers them, then the
  insert and the increment as one transaction. The specification has the uniqueness of a
  pair restricted to active reservations, or enforced in the admission transaction where
  the store cannot express that, and has a user reserve again after a cancellation; the
  table's \<open>UNIQUE\<close> covers cancelled rows. So the transaction first deletes the cancelled row
  that holds the pair the new row takes (the user id as its column stores it), and then
  inserts. The schema's \<open>user_name\<close> column is not nullable and the specification names no
  source for it: the caller's display name is an argument. A refusal by the store is a
  storage failure, \<open>Internal\<close>, and nothing of the transaction stays.
\<close>

definition CreateReservation ::
  "timestamp \<Rightarrow> string \<Rightarrow> db \<Rightarrow> int \<Rightarrow> string \<Rightarrow> codes + (reservation_row \<times> db)" where
  "CreateReservation now user_name d sid uid =
     (case find_session d sid of
        None \<Rightarrow> Inl NotFound
      | Some s \<Rightarrow>
          if s_is_cancelled s \<or> s_end_time s < now then Inl FailedPrecondition
          else if has_active_reservation d sid uid then Inl AlreadyExists
          else if s_reserved_spots s = s_capacity s then Inl ResourceExhausted
          else
            (case insert_reservation now (delete_cancelled d sid (stored_varchar 100 uid))
                    sid uid user_name of
               Inl err \<Rightarrow> Inl Internal
             | Inr (row, d') \<Rightarrow>
                 Inr (row, update_session d' sid
                             (\<lambda>old. old\<lparr>s_reserved_spots := s_reserved_spots old + 1\<rparr>))))"

text \<open>
  Modelled from the spec: \<open>CancelReservation(reservation_id, user_id)\<close>, absent from the
  service source. The caller is the subject id and whether its role is admin. The checks in
  the order the specification lists them (absent, not permitted), then the state of the
  reservation; the decrement never goes below 0.
\<close>

definition CancelReservation :: "db \<Rightarrow> int \<Rightarrow> string \<Rightarrow> bool \<Rightarrow> codes + db" where
  "CancelReservation d rid caller is_admin =
     (case find_reservation d rid of
        None \<Rightarrow> Inl NotFound
      | Some r \<Rightarrow>
          if r_user_id r \<noteq> caller \<and> \<not> is_admin then Inl PermissionDenied
          else if r_status r = Cancelled then Inl FailedPrecondition
          else
            Inr (update_session (update_reservation d rid (\<lambda>old. old\<lparr>r_status := Cancelled\<rparr>))
                   (r_session_id r)
                   (\<lambda>old. old\<lparr>s_reserved_spots := max 0 (s_reserved_spots old - 1)\<rparr>)))"

text \<open>
  Modelled from the spec: the partial fields of \<open>UpdateSession\<close>, each absent or present;
  they are the fields the gateway forwards. An absent field keeps its value.
\<close>

record SessionPatch =
  p_title :: "string option"
  p_description :: "string option"
  p_coach_id :: "string option"
  p_capacity :: "int option"
  p_start_time :: "timestamp option"
  p_end_time :: "timestamp option"
  p_location :: "string option"
  p_session_type :: "string option"
  p_difficulty_level :: "string option"
  p_is_cancelled :: "bool option"

definition or_else :: "'a option \<Rightarrow> 'a \<Rightarrow> 'a" where
  "or_else v old = (case v of None \<Rightarrow> old | Some x \<Rightarrow> x)"

definition apply_patch :: "SessionPatch \<Rightarrow> session_row \<Rightarrow> session_row" where
  "apply_patch p s =
     s\<lparr>s_title := or_else (p_title p) (s_title s),
       s_description := or_else (p_description p) (s_description s),
       s_coach_id := or_else (p_coach_id p) (s_coach_id s),
       s_capacity := or_else (p_capacity p) (s_capacity s),
       s_start_time := or_else (p_start_time p) (s_start_time s),
       s_end_time := or_else (p_end_time p) (s_end_time s),
       s_location := or_else (p_location p) (s_location s),
       s_session_type := or_else (p_session_type p) (s_session_type s),
       s_difficulty_level := or_else (p_difficulty_level p) (s_difficulty_level s),
       s_is_cancelled := or_else (p_is_cancelled p) (s_is_cancelled s)\<rparr>"

text \<open>
  Modelled from the spec: \<open>UpdateSession(id, partial fields)\<close>, absent from the service
  source. Only the provided fields change; the resulting capacity is checked against the
  reserved count before anything is written; \<open>updated_at\<close> is set. The store checks the texts
  of the update and fits them to their columns as it does for an insert.
\<close>

definition UpdateSession :: "timestamp \<Rightarrow> db \<Rightarrow> int \<Rightarrow> SessionPatch \<Rightarrow> codes + (session_row \<times> db)" where
  "UpdateSession now d sid p =
     (case find_session d sid of
        None \<Rightarrow> Inl NotFound
      | Some s \<Rightarrow>
          let s' = (apply_patch p s)\<lparr>s_updated_at := now\<rparr>
          in if s_capacity s' < s_reserved_spots s' then Inl FailedPrecondition
             else if \<not> (text_ok (s_title s') \<and> text_ok (s_description s') \<and>
                         text_ok (s_coach_id s') \<and> text_ok (s_location s') \<and>
                         text_ok (s_session_type s') \<and> text_ok (s_difficulty_level s'))
             then Inl Internal
             else
               (case sessions_varchar_in s' of
                  Inl err \<Rightarrow> Inl Internal
                | Inr stored \<Rightarrow> Inr (stored, update_session d sid (\<lambda>old. stored))))"

text \<open>
  Modelled from the spec: \<open>DeleteSession(id)\<close>, absent from the service source. The
  cascade is the store's.
\<close>

definition DeleteSession :: "db \<Rightarrow> int \<Rightarrow> codes + db" where
  "DeleteSession d sid =
     (case find_session d sid of None \<Rightarrow> Inl NotFound | Some s \<Rightarrow> Inr (delete_session d sid))"

section \<open>Sequences of calls\<close>

text \<open>
  A call, with the time at which its transaction runs where the operation reads the clock.
  Calls of several clients, concurrent or not, reach the store as transactions in some
  order: a sequence of calls is one such order. A failed call leaves the database as it
  was.
\<close>

datatype call =
    CallCreateSession timestamp CreateSessionRequest
  | CallUpdateSession timestamp int SessionPatch
  | CallDeleteSession int
  | CallCreateReservation timestamp string int string
  | CallCancelReservation int string bool

definition after :: "db \<Rightarrow> codes + ('a \<times> db) \<Rightarrow> db" where
  "after d res = (case res of Inl err \<Rightarrow> d | Inr (x, d') \<Rightarrow> d')"

fun apply_call ::
  "(string \<Rightarrow> timestamp option) \<Rightarrow> (timestamp \<Rightarrow> string) \<Rightarrow> db \<Rightarrow> call \<Rightarrow> db" where
  "apply_call tin fmt d (CallCreateSession now req) = after d (CreateSession tin fmt now d req)"
| "apply_call tin fmt d (CallUpdateSession now sid p) = after d (UpdateSession now d sid p)"
| "apply_call tin fmt d (CallDeleteSession sid) =
     (case DeleteSession d sid of Inl err \<Rightarrow> d | Inr d' \<Rightarrow> d')"
| "apply_call tin fmt d (CallCreateReservation now user_name sid uid) =
     after d (CreateReservation now user_name d sid uid)"
| "apply_call tin fmt d (CallCancelReservation rid caller is_admin) =
     (case CancelReservation d rid caller is_admin of Inl err \<Rightarrow> d | Inr d' \<Rightarrow> d')"

fun run :: "(string \<Rightarrow> timestamp option) \<Rightarrow> (timestamp \<Rightarrow> string) \<Rightarrow> db \<Rightarrow> call list \<Rightarrow> db" where
  "run tin fmt d [] = d"
| "run tin fmt d (c # cs) = run tin fmt (apply_call tin fmt d c) cs"

section \<open>What the schema enforces and what the operations maintain\<close>

text \<open>
  The constraints of the two \<open>CREATE TABLE\<close> statements: both primary keys are distinct and
  below their sequences, a pair \<open>(session_id, user_id)\<close> occurs once, and every reservation
  references a session.
\<close>

definition schema_ok :: "db \<Rightarrow> bool" where
  "schema_ok d \<longleftrightarrow>
     distinct (map s_id (sessions d)) \<and>
     distinct (map r_id (reservations d)) \<and>
     (\<forall>s \<in> set (sessions d). s_id s < sessions_id_seq d) \<and>
     (\<forall>r \<in> set (reservations d). r_id r < reservations_id_seq d) \<and>
     distinct (map (\<lambda>r. (r_session_id r, r_user_id r)) (reservations d)) \<and>
     (\<forall>r \<in> set (reservations d). r_session_id r \<in> set (map s_id (sessions d)))"

text \<open>
  The counter of every session equals the number of its active reservations and does not
  exceed the capacity.
\<close>

definition counts_ok :: "db \<Rightarrow> bool" where
  "counts_ok d \<longleftrightarrow>
     (\<forall>s \<in> set (sessions d).
        s_reserved_spots s = active_count d (s_id s) \<and> s_reserved_spots s \<le> s_capacity s)"

definition capacity_respected :: "db \<Rightarrow> bool" where
  "capacity_respected d \<longleftrightarrow> (\<forall>s \<in> set (sessions d). active_count d (s_id s) \<le> s_capacity s)"

definition confirmed_for :: "db \<Rightarrow> int \<Rightarrow> string \<Rightarrow> reservation_row list" where
  "confirmed_for d sid uid =
     filter (\<lambda>r. r_session_id r = sid \<and> r_user_id r = uid \<and> r_status r = Confirmed) (reservations d)"

text \<open>The pair of a session and a user has a row in \<open>reservations\<close>, whatever its status.\<close>

definition pair_taken :: "db \<Rightarrow> int \<Rightarrow> string \<Rightarrow> bool" where
  "pair_taken d sid uid \<longleftrightarrow>
     (sid, uid) \<in> set (map (\<lambda>r. (r_session_id r, r_user_id r)) (reservations d))"

text \<open>
  The reservation id \<open>i\<close> has been handed out, and a row that carries it is cancelled.
\<close>

definition cancelled_for_good :: "db \<Rightarrow> int \<Rightarrow> bool" where
  "cancelled_for_good d i \<longleftrightarrow>
     i < reservations_id_seq d \<and> (\<forall>r \<in> set (reservations d). r_id r = i \<longrightarrow> r_status r = Cancelled)"

section \<open>A concrete scenario\<close>

text \<open>
  The session of the repository's documentation (\<open>Morning Yoga\<close>, capacity 15, one hour on
  2025-05-15), created on 2025-05-01 at noon UTC. The two conversions are given on the
  values the scenario uses: the text of these instants is their RFC 3339 form. On any other
  value the two samples answer nothing (no timestamp, the empty text); nothing below
  evaluates them there.
\<close>

definition sample_timestamp_in :: "string \<Rightarrow> timestamp option" where
  "sample_timestamp_in txt =
     (if txt = ''2025-05-15T08:00:00Z'' then Some 1747296000
      else if txt = ''2025-05-15T09:00:00Z'' then Some 1747299600
      else None)"

definition sample_formatTimestamp :: "timestamp \<Rightarrow> string" where
  "sample_formatTimestamp t =
     (if t = 1746100800 then ''2025-05-01T12:00:00Z''
      else if t = 1746101100 then ''2025-05-01T12:05:00Z''
      else if t = 1747296000 then ''2025-05-15T08:00:00Z''
      else if t = 1747299600 then ''2025-05-15T09:00:00Z''
      else [])"

definition yoga_request :: CreateSessionRequest where
  "yoga_request =
     \<lparr>req_Title = ''Morning Yoga'', req_Description = ''Energizing session'',
      req_CoachId = ''coach-7'', req_Capacity = 15,
      req_StartTime = ''2025-05-15T08:00:00Z'', req_EndTime = ''2025-05-15T09:00:00Z'',
      req_Location = ''Studio A'', req_SessionType = ''yoga'',
      req_DifficultyLevel = ''intermediate''\<rparr>"

definition yoga_row :: session_row where
  "yoga_row =
     \<lparr>s_id = 1, s_title = ''Morning Yoga'', s_description = ''Energizing session'',
      s_coach_id = ''coach-7'', s_coach_name = ''Coach Name'', s_capacity = 15,
      s_reserved_spots = 0, s_start_time = 1747296000, s_end_time = 1747299600,
      s_location = ''Studio A'', s_session_type = ''yoga'',
      s_difficulty_level = ''intermediate'', s_is_cancelled = False,
      s_created_at = 1746100800, s_updated_at = 1746100800\<rparr>"

definition yoga_db :: db where
  "yoga_db = \<lparr>sessions = [yoga_row], reservations = [], sessions_id_seq = 2,
              reservations_id_seq = 1\<rparr>"

text \<open>The response to the request that creates the yoga session in the empty database.\<close>

definition yoga_session :: Session where
  "yoga_session =
     \<lparr>Id = ''1'', Title = ''Morning Yoga'', Description = ''Energizing session'',
      CoachId = ''coach-7'', CoachName = ''Coach Name'', Capacity = 15, ReservedSpots = 0,
      StartTime = ''2025-05-15T08:00:00Z'', EndTime = ''2025-05-15T09:00:00Z'',
      Location = ''Studio A'', SessionType = ''yoga'', DifficultyLevel = ''intermediate'',
      IsCancelled = False, CreatedAt = ''2025-05-01T12:00:00Z'',
      UpdatedAt = ''2025-05-01T12:00:00Z''\<rparr>"

text \<open>The yoga request with its two times exchanged: it ends an hour before it starts.\<close>

definition backwards_request :: CreateSessionRequest where
  "backwards_request =
     yoga_request\<lparr>req_StartTime := ''2025-05-15T09:00:00Z'', req_EndTime := ''2025-05-15T08:00:00Z''\<rparr>"

text \<open>What the store holds once the request with the exchanged times has been served.\<close>

definition backwards_db :: db where
  "backwards_db =
     \<lparr>sessions = [yoga_row\<lparr>s_start_time := 1747299600, s_end_time := 1747296000\<rparr>],
      reservations = [], sessions_id_seq = 2, reservations_id_seq = 1\<rparr>"

text \<open>The same database with a session of capacity 1 in place of the yoga session.\<close>

definition single_db :: db where
  "single_db = \<lparr>sessions = [yoga_row\<lparr>s_capacity := 1\<rparr>], reservations = [],
                sessions_id_seq = 2, reservations_id_seq = 1\<rparr>"

text \<open>The reservation of user A in the yoga session, confirmed and then cancelled.\<close>

definition res_A :: reservation_row where
  "res_A = \<lparr>r_id = 1, r_session_id = 1, r_user_id = ''user-A'', r_user_name = ''Alice'',
            r_reservation_time = 1746101100, r_status = Confirmed,
            r_created_at = 1746101100, r_updated_at = 1746101100\<rparr>"

text \<open>The session of capacity 1 once user A holds its only place.\<close>

definition full_db :: db where
  "full_db = \<lparr>sessions = [yoga_row\<lparr>s_capacity := 1, s_reserved_spots := 1\<rparr>],
              reservations = [res_A], sessions_id_seq = 2, reservations_id_seq = 2\<rparr>"

definition reserved_db :: db where
  "reserved_db = \<lparr>sessions = [yoga_row\<lparr>s_reserved_spots := 1\<rparr>], reservations = [res_A],
                  sessions_id_seq = 2, reservations_id_seq = 2\<rparr>"

definition cancelled_db :: db where
  "cancelled_db = \<lparr>sessions = [yoga_row], reservations = [res_A\<lparr>r_status := Cancelled\<rparr>],
                   sessions_id_seq = 2, reservations_id_seq = 2\<rparr>"



text \<open>
  The yoga request with a difficulty level of 51 letters, one more than the column holds,
  and with a title that holds a zero byte.
\<close>

definition wide_request :: CreateSessionRequest where
  "wide_request = yoga_request\<lparr>req_DifficultyLevel := replicate 51 (CHR ''x'')\<rparr>"

definition nul_request :: CreateSessionRequest where
  "nul_request = yoga_request\<lparr>req_Title := [CHR ''a'', CHR 0x00, CHR ''b'']\<rparr>"

section \<open>Facts about the store\<close>

declare digits.simps [simp del]

lemma update_session_fields [simp]:
  "sessions (update_session d sid f) = map (\<lambda>s. if s_id s = sid then f s else s) (sessions d)"
  "reservations (update_session d sid f) = reservations d"
  "sessions_id_seq (update_session d sid f) = sessions_id_seq d"
  "reservations_id_seq (update_session d sid f) = reservations_id_seq d"
  by (simp_all add: update_session_def)

lemma update_reservation_fields [simp]:
  "reservations (update_reservation d rid f) = map (\<lambda>r. if r_id r = rid then f r else r) (reservations d)"
  "sessions (update_reservation d rid f) = sessions d"
  "sessions_id_seq (update_reservation d rid f) = sessions_id_seq d"
  "reservations_id_seq (update_reservation d rid f) = reservations_id_seq d"
  by (simp_all add: update_reservation_def)

lemma delete_session_fields [simp]:
  "sessions (delete_session d sid) = filter (\<lambda>s. s_id s \<noteq> sid) (sessions d)"
  "reservations (delete_session d sid) = filter (\<lambda>r. r_session_id r \<noteq> sid) (reservations d)"
  "sessions_id_seq (delete_session d sid) = sessions_id_seq d"
  "reservations_id_seq (delete_session d sid) = reservations_id_seq d"
  by (simp_all add: delete_session_def)

lemma delete_reservation_fields [simp]:
  "reservations (delete_reservation d rid) = filter (\<lambda>r. r_id r \<noteq> rid) (reservations d)"
  "sessions (delete_reservation d rid) = sessions d"
  "sessions_id_seq (delete_reservation d rid) = sessions_id_seq d"
  "reservations_id_seq (delete_reservation d rid) = reservations_id_seq d"
  by (simp_all add: delete_reservation_def)

lemma delete_cancelled_fields [simp]:
  "reservations (delete_cancelled d sid uid) =
     filter (\<lambda>r. \<not> (r_session_id r = sid \<and> r_user_id r = uid \<and> r_status r = Cancelled))
       (reservations d)"
  "sessions (delete_cancelled d sid uid) = sessions d"
  "sessions_id_seq (delete_cancelled d sid uid) = sessions_id_seq d"
  "reservations_id_seq (delete_cancelled d sid uid) = reservations_id_seq d"
  by (simp_all add: delete_cancelled_def)

lemma schema_ok_empty_db: "schema_ok empty_db"
  by (simp add: schema_ok_def empty_db_def)

lemma counts_ok_empty_db: "counts_ok empty_db"
  by (simp add: counts_ok_def empty_db_def)

lemma varchar_in_fits: "char_length txt \<le> n \<Longrightarrow> varchar_in n txt = Inr txt"
  by (simp add: varchar_in_def)

lemma stored_varchar_fits: "char_length txt \<le> n \<Longrightarrow> stored_varchar n txt = txt"
  by (simp add: stored_varchar_def varchar_in_fits)

lemma stored_varchar_Inr: "varchar_in n txt = Inr v \<Longrightarrow> stored_varchar n txt = v"
  by (simp add: stored_varchar_def)

lemma varchar_in_Inl: "varchar_in n txt = Inl err \<Longrightarrow> err = StringDataRightTruncation"
  by (simp add: varchar_in_def split: if_splits)

lemma coach_name_literal:
  "text_ok ''Coach Name''" "varchar_in 255 ''Coach Name'' = Inr ''Coach Name''"
  by code_simp+

lemma sessions_varchar_in_Inr:
  assumes "sessions_varchar_in row = Inr stored"
  shows "s_id stored = s_id row" "s_capacity stored = s_capacity row"
    "s_reserved_spots stored = s_reserved_spots row" "s_description stored = s_description row"
    "s_start_time stored = s_start_time row" "s_end_time stored = s_end_time row"
    "s_is_cancelled stored = s_is_cancelled row" "s_created_at stored = s_created_at row"
    "s_updated_at stored = s_updated_at row"
    "varchar_in 255 (s_title row) = Inr (s_title stored)"
    "varchar_in 100 (s_coach_id row) = Inr (s_coach_id stored)"
    "varchar_in 255 (s_coach_name row) = Inr (s_coach_name stored)"
    "varchar_in 255 (s_location row) = Inr (s_location stored)"
    "varchar_in 100 (s_session_type row) = Inr (s_session_type stored)"
    "varchar_in 50 (s_difficulty_level row) = Inr (s_difficulty_level stored)"
  using assms by (auto simp: sessions_varchar_in_def split: sum.splits)

lemma find_session_Some:
  "find_session d sid = Some s \<Longrightarrow> s \<in> set (sessions d) \<and> s_id s = sid"
  by (auto simp: find_session_def find_Some_iff)

lemma find_session_None:
  "find_session d sid = None \<longleftrightarrow> sid \<notin> set (map s_id (sessions d))"
  by (auto simp: find_session_def find_None_iff)

lemma find_reservation_Some:
  "find_reservation d rid = Some r \<Longrightarrow> r \<in> set (reservations d) \<and> r_id r = rid"
  by (auto simp: find_reservation_def find_Some_iff)

lemma insert_session_Inr:
  assumes "insert_session tin now d t de ci cn cap st et lo ty dl = Inr (x, d')"
  shows "\<exists>row. d' = d\<lparr>sessions := sessions d @ [row], sessions_id_seq := sessions_id_seq d + 1\<rparr> \<and>
         s_id row = sessions_id_seq d \<and> s_reserved_spots row = 0 \<and> s_capacity row = cap \<and>
         varchar_in 255 cn = Inr (s_coach_name row) \<and>
         varchar_in 100 ci = Inr (s_coach_id row) \<and> x = (sessions_id_seq d, now, now)"
proof -
  from assms obtain a b row where
    v: "sessions_varchar_in
          \<lparr>s_id = sessions_id_seq d, s_title = t, s_description = de, s_coach_id = ci,
           s_coach_name = cn, s_capacity = cap, s_reserved_spots = 0, s_start_time = a,
           s_end_time = b, s_location = lo, s_session_type = ty, s_difficulty_level = dl,
           s_is_cancelled = False, s_created_at = now, s_updated_at = now\<rparr> = Inr row"
    and d': "d' = d\<lparr>sessions := sessions d @ [row], sessions_id_seq := sessions_id_seq d + 1\<rparr>"
    and x: "x = (sessions_id_seq d, now, now)"
    by (auto simp: insert_session_def split: option.splits if_splits sum.splits)
  from sessions_varchar_in_Inr [OF v] d' x
  have "d' = d\<lparr>sessions := sessions d @ [row], sessions_id_seq := sessions_id_seq d + 1\<rparr> \<and>
         s_id row = sessions_id_seq d \<and> s_reserved_spots row = 0 \<and> s_capacity row = cap \<and>
         varchar_in 255 cn = Inr (s_coach_name row) \<and>
         varchar_in 100 ci = Inr (s_coach_id row) \<and> x = (sessions_id_seq d, now, now)"
    by simp
  then show ?thesis ..
qed

lemma insert_reservation_Inr:
  assumes "insert_reservation now d sid uid un = Inr (row, d')"
  shows "d' = d\<lparr>reservations := reservations d @ [row],
                 reservations_id_seq := reservations_id_seq d + 1\<rparr>"
    "r_id row = reservations_id_seq d" "r_session_id row = sid"
    "varchar_in 100 uid = Inr (r_user_id row)" "varchar_in 255 un = Inr (r_user_name row)"
    "r_status row = Confirmed" "sid \<in> set (map s_id (sessions d))"
    "(sid, r_user_id row) \<notin> set (map (\<lambda>r. (r_session_id r, r_user_id r)) (reservations d))"
    "text_ok uid" "text_ok un"
  using assms
  by (auto simp: insert_reservation_def Let_def split: if_splits sum.splits)

lemma schema_ok_insert_session:
  assumes "insert_session tin now d t de ci cn cap st et lo ty dl = Inr (x, d')" and "schema_ok d"
  shows "schema_ok d'"
proof -
  from insert_session_Inr [OF assms(1)] obtain row where
    d': "d' = d\<lparr>sessions := sessions d @ [row], sessions_id_seq := sessions_id_seq d + 1\<rparr>"
    and row: "s_id row = sessions_id_seq d" by blast
  from assms(2) have fresh: "\<forall>s \<in> set (sessions d). s_id s < sessions_id_seq d"
    by (simp add: schema_ok_def)
  then have "sessions_id_seq d \<notin> s_id ` set (sessions d)" by auto
  with assms(2) fresh show ?thesis
    unfolding schema_ok_def d' by (auto simp: row)
qed

lemma schema_ok_insert_reservation:
  assumes "insert_reservation now d sid uid un = Inr (row, d')" and "schema_ok d"
  shows "schema_ok d'"
proof -
  note f = insert_reservation_Inr [OF assms(1)]
  from assms(2) have fresh: "\<forall>r \<in> set (reservations d). r_id r < reservations_id_seq d"
    by (simp add: schema_ok_def)
  then have "reservations_id_seq d \<notin> r_id ` set (reservations d)" by auto
  with assms(2) fresh f(1,2,3,7,8) show ?thesis
    unfolding schema_ok_def by (auto simp: image_iff)
qed

lemma map_id_update:
  assumes "\<And>s. P s \<Longrightarrow> g (f s) = g s"
  shows "map g (map (\<lambda>s. if P s then f s else s) xs) = map g xs"
  by (induction xs) (simp_all add: assms)

lemma ball_id_update:
  assumes "\<And>s. P s \<Longrightarrow> g (f s) = g s"
  shows "(\<forall>x \<in> set (map (\<lambda>s. if P s then f s else s) xs). Q (g x)) = (\<forall>x \<in> set xs. Q (g x))"
  by (induction xs) (simp_all add: assms)

lemma schema_ok_update_session:
  assumes "\<And>s. s_id s = sid \<Longrightarrow> s_id (f s) = s_id s"
  shows "schema_ok (update_session d sid f) = schema_ok d"
proof -
  have m: "map s_id (map (\<lambda>s. if s_id s = sid then f s else s) (sessions d)) = map s_id (sessions d)"
    by (rule map_id_update) (rule assms)
  have b: "(\<forall>s\<in>set (map (\<lambda>s. if s_id s = sid then f s else s) (sessions d)). s_id s < k) =
           (\<forall>s\<in>set (sessions d). s_id s < k)" for k
    by (rule ball_id_update) (rule assms)
  show ?thesis
    unfolding schema_ok_def update_session_fields m b ..
qed

lemma schema_ok_update_reservation:
  assumes "\<And>r. r_id (f r) = r_id r" and "\<And>r. r_session_id (f r) = r_session_id r"
    and "\<And>r. r_user_id (f r) = r_user_id r"
  shows "schema_ok (update_reservation d rid f) = schema_ok d"
proof -
  let ?u = "\<lambda>r. if r_id r = rid then f r else r"
  have m1: "map r_id (map ?u (reservations d)) = map r_id (reservations d)"
    by (rule map_id_update) (rule assms)
  have m2: "map (\<lambda>r. (r_session_id r, r_user_id r)) (map ?u (reservations d)) =
            map (\<lambda>r. (r_session_id r, r_user_id r)) (reservations d)"
    by (rule map_id_update) (simp add: assms)
  have b1: "(\<forall>r\<in>set (map ?u (reservations d)). r_id r < k) =
           (\<forall>r\<in>set (reservations d). r_id r < k)" for k
    by (rule ball_id_update) (rule assms)
  have b2: "(\<forall>r\<in>set (map ?u (reservations d)). r_session_id r \<in> S) =
           (\<forall>r\<in>set (reservations d). r_session_id r \<in> S)" for S
    by (rule ball_id_update) (rule assms)
  show ?thesis
    unfolding schema_ok_def update_reservation_fields m1 m2 b1 b2 ..
qed

lemma schema_ok_delete_session:
  assumes "schema_ok d"
  shows "schema_ok (delete_session d sid)"
  using assms unfolding schema_ok_def delete_session_fields
  by (auto simp: distinct_map_filter)

lemma schema_ok_delete_cancelled:
  assumes "schema_ok d"
  shows "schema_ok (delete_cancelled d sid uid)"
  using assms unfolding schema_ok_def delete_cancelled_fields
  by (auto simp: distinct_map_filter)

section \<open>Every operation keeps the schema's constraints\<close>

lemma CreateSession_Inr:
  assumes "CreateSession tin fmt now d req = Inr (sess, d')"
  shows "\<not> missing_required_fields req \<and>
    (\<exists>x. insert_session tin now d (req_Title req) (req_Description req) (req_CoachId req)
       ''Coach Name'' (req_Capacity req) (req_StartTime req) (req_EndTime req) (req_Location req)
       (req_SessionType req) (req_DifficultyLevel req) = Inr (x, d'))"
  using assms by (auto simp: CreateSession_def split: if_splits sum.splits)

lemma CreateReservation_Inr:
  assumes "CreateReservation now un d sid uid = Inr (row, d')"
  shows "\<exists>s d1. find_session d sid = Some s \<and> \<not> s_is_cancelled s \<and> \<not> s_end_time s < now \<and>
      \<not> has_active_reservation d sid uid \<and> s_reserved_spots s \<noteq> s_capacity s \<and>
      insert_reservation now (delete_cancelled d sid (stored_varchar 100 uid)) sid uid un
        = Inr (row, d1) \<and>
      d' = update_session d1 sid (\<lambda>old. old\<lparr>s_reserved_spots := s_reserved_spots old + 1\<rparr>)"
  using assms by (auto simp: CreateReservation_def split: option.splits if_splits sum.splits)

lemma CancelReservation_Inr:
  assumes "CancelReservation d rid caller adm = Inr d'"
  shows "\<exists>r. find_reservation d rid = Some r \<and> (r_user_id r = caller \<or> adm) \<and>
      r_status r = Confirmed \<and>
      d' = update_session (update_reservation d rid (\<lambda>old. old\<lparr>r_status := Cancelled\<rparr>))
             (r_session_id r) (\<lambda>old. old\<lparr>s_reserved_spots := max 0 (s_reserved_spots old - 1)\<rparr>)"
  using assms
  by (auto simp: CancelReservation_def split: option.splits if_splits intro: res_status.exhaust)

lemma apply_patch_keeps [simp]:
  "s_id (apply_patch p s) = s_id s"
  "s_reserved_spots (apply_patch p s) = s_reserved_spots s"
  "s_capacity (apply_patch p s) = or_else (p_capacity p) (s_capacity s)"
  by (simp_all add: apply_patch_def)

lemma UpdateSession_Inr:
  assumes "UpdateSession now d sid p = Inr (u, d')"
  shows "\<exists>s. find_session d sid = Some s \<and>
      sessions_varchar_in ((apply_patch p s)\<lparr>s_updated_at := now\<rparr>) = Inr u \<and>
      \<not> or_else (p_capacity p) (s_capacity s) < s_reserved_spots s \<and>
      d' = update_session d sid (\<lambda>old. u)"
  using assms
  by (auto simp: UpdateSession_def Let_def split: option.splits if_splits sum.splits)

lemma UpdateSession_row:
  assumes "UpdateSession now d sid p = Inr (u, d')"
  shows "s_id u = sid" "\<exists>s. find_session d sid = Some s \<and>
      s_reserved_spots u = s_reserved_spots s \<and> s_reserved_spots u \<le> s_capacity u"
proof -
  from UpdateSession_Inr [OF assms] obtain s where
    s: "find_session d sid = Some s" and
    v: "sessions_varchar_in ((apply_patch p s)\<lparr>s_updated_at := now\<rparr>) = Inr u" and
    g: "\<not> or_else (p_capacity p) (s_capacity s) < s_reserved_spots s" by blast
  from sessions_varchar_in_Inr(1) [OF v] find_session_Some [OF s] show "s_id u = sid"
    by simp
  from sessions_varchar_in_Inr(2,3) [OF v] g
  have "s_reserved_spots u = s_reserved_spots s \<and> s_reserved_spots u \<le> s_capacity u"
    by simp
  with s show "\<exists>s. find_session d sid = Some s \<and>
      s_reserved_spots u = s_reserved_spots s \<and> s_reserved_spots u \<le> s_capacity u"
    by blast
qed

lemma DeleteSession_Inr:
  assumes "DeleteSession d sid = Inr d'"
  shows "d' = delete_session d sid"
  using assms by (auto simp: DeleteSession_def split: option.splits)

lemma schema_ok_CreateSession:
  "CreateSession tin fmt now d req = Inr (sess, d') \<Longrightarrow> schema_ok d \<Longrightarrow> schema_ok d'"
  by (blast dest: CreateSession_Inr intro: schema_ok_insert_session)

lemma schema_ok_CreateReservation:
  assumes "CreateReservation now un d sid uid = Inr (row, d')" and "schema_ok d"
  shows "schema_ok d'"
proof -
  from CreateReservation_Inr [OF assms(1)] obtain d1 where
    ins: "insert_reservation now (delete_cancelled d sid (stored_varchar 100 uid)) sid uid un
        = Inr (row, d1)" and
    d': "d' = update_session d1 sid (\<lambda>old. old\<lparr>s_reserved_spots := s_reserved_spots old + 1\<rparr>)"
    by blast
  from assms(2) have "schema_ok (delete_cancelled d sid (stored_varchar 100 uid))"
    by (rule schema_ok_delete_cancelled)
  with ins have "schema_ok d1"
    by (rule schema_ok_insert_reservation)
  then show ?thesis
    unfolding d' by (simp add: schema_ok_update_session)
qed

lemma schema_ok_CancelReservation:
  "CancelReservation d rid caller adm = Inr d' \<Longrightarrow> schema_ok d \<Longrightarrow> schema_ok d'"
  by (auto dest!: CancelReservation_Inr simp: schema_ok_update_session schema_ok_update_reservation)

lemma schema_ok_UpdateSession:
  assumes "UpdateSession now d sid p = Inr (u, d')" and "schema_ok d"
  shows "schema_ok d'"
proof -
  from UpdateSession_Inr [OF assms(1)] have d': "d' = update_session d sid (\<lambda>old. u)"
    by blast
  from UpdateSession_row(1) [OF assms(1)] assms(2) show ?thesis
    unfolding d' by (simp add: schema_ok_update_session)
qed

lemma schema_ok_DeleteSession:
  "DeleteSession d sid = Inr d' \<Longrightarrow> schema_ok d \<Longrightarrow> schema_ok d'"
  by (auto dest!: DeleteSession_Inr intro: schema_ok_delete_session)

lemma schema_ok_apply_call:
  "schema_ok d \<Longrightarrow> schema_ok (apply_call tin fmt d c)"
proof (cases c)
  case (CallCreateSession now req)
  assume "schema_ok d"
  then show ?thesis using CallCreateSession
    by (cases "CreateSession tin fmt now d req") (auto simp: after_def dest: schema_ok_CreateSession)
next
  case (CallUpdateSession now sid p)
  assume "schema_ok d"
  then show ?thesis using CallUpdateSession
    by (cases "UpdateSession now d sid p") (auto simp: after_def dest: schema_ok_UpdateSession)
next
  case (CallDeleteSession sid)
  assume "schema_ok d"
  then show ?thesis using CallDeleteSession
    by (cases "DeleteSession d sid") (auto dest: schema_ok_DeleteSession)
next
  case (CallCreateReservation now un sid uid)
  assume "schema_ok d"
  then show ?thesis using CallCreateReservation
    by (cases "CreateReservation now un d sid uid")
       (auto simp: after_def dest: schema_ok_CreateReservation)
next
  case (CallCancelReservation rid caller adm)
  assume "schema_ok d"
  then show ?thesis using CallCancelReservation
    by (cases "CancelReservation d rid caller adm") (auto dest: schema_ok_CancelReservation)
qed

lemma schema_ok_run:
  "schema_ok d \<Longrightarrow> schema_ok (run tin fmt d cs)"
  by (induction cs arbitrary: d) (simp_all add: schema_ok_apply_call)

section \<open>Counting active reservations\<close>

lemma active_count_update_session [simp]:
  "active_count (update_session d sid f) k = active_count d k"
  by (simp add: active_count_def)

lemma active_count_append:
  "active_count (d\<lparr>reservations := reservations d @ [row], reservations_id_seq := n\<rparr>) k =
   active_count d k + (if r_session_id row = k \<and> r_status row = Confirmed then 1 else 0)"
  by (simp add: active_count_def)

lemma active_count_sessions_upd [simp]:
  "active_count (d\<lparr>sessions := ss, sessions_id_seq := n\<rparr>) k = active_count d k"
  by (simp add: active_count_def)

lemma active_count_nonneg: "0 \<le> active_count d k"
  by (simp add: active_count_def)

lemma active_count_unreferenced:
  "k \<notin> r_session_id ` set (reservations d) \<Longrightarrow> active_count d k = 0"
  by (auto simp: active_count_def filter_empty_conv)

lemma map_other_ids:
  "i \<notin> r_id ` set rs \<Longrightarrow> map (\<lambda>x. if r_id x = i then f x else x) rs = rs"
  by (induction rs) auto

lemma cancel_one_length:
  assumes "distinct (map r_id rs)" and "r \<in> set rs" and "r_status r = Confirmed"
  shows "length (filter (\<lambda>x. r_session_id x = k \<and> r_status x = Confirmed)
            (map (\<lambda>x. if r_id x = r_id r then x\<lparr>r_status := Cancelled\<rparr> else x) rs))
         + (if r_session_id r = k then 1 else 0)
         = length (filter (\<lambda>x. r_session_id x = k \<and> r_status x = Confirmed) rs)"
  using assms
proof (induction rs)
  case Nil
  then show ?case by simp
next
  case (Cons x rs)
  show ?case
  proof (cases "x = r")
    case True
    with Cons.prems have "r_id r \<notin> r_id ` set rs" by auto
    then have "map (\<lambda>x. if r_id x = r_id r then x\<lparr>r_status := Cancelled\<rparr> else x) rs = rs"
      by (rule map_other_ids)
    with True Cons.prems(3) show ?thesis by (simp split: if_splits)
  next
    case False
    with Cons.prems have in_rs: "r \<in> set rs" and d: "distinct (map r_id rs)"
      and ne: "r_id x \<noteq> r_id r" by auto
    from Cons.IH [OF d in_rs Cons.prems(3)] ne show ?thesis by (simp split: if_splits)
  qed
qed

lemma active_count_cancel:
  assumes "distinct (map r_id (reservations d))" and "find_reservation d rid = Some r"
    and "r_status r = Confirmed"
  shows "active_count (update_reservation d rid (\<lambda>old. old\<lparr>r_status := Cancelled\<rparr>)) k
         + (if r_session_id r = k then 1 else 0) = active_count d k"
proof -
  from find_reservation_Some [OF assms(2)] have r: "r \<in> set (reservations d)" "r_id r = rid"
    by simp_all
  from cancel_one_length [OF assms(1) r(1) assms(3), of k] show ?thesis
    by (simp add: active_count_def r(2) split: if_splits)
qed

lemma active_count_delete_session:
  "k \<noteq> sid \<Longrightarrow> active_count (delete_session d sid) k = active_count d k"
  by (auto simp: active_count_def intro!: arg_cong [where f = length] filter_cong)

lemma active_count_delete_cancelled [simp]:
  "active_count (delete_cancelled d sid uid) k = active_count d k"
proof -
  have "filter (\<lambda>r. r_session_id r = k \<and> r_status r = Confirmed)
          (filter (\<lambda>r. \<not> (r_session_id r = sid \<and> r_user_id r = uid \<and> r_status r = Cancelled))
             (reservations d))
        = filter (\<lambda>r. r_session_id r = k \<and> r_status r = Confirmed) (reservations d)"
    by (auto intro: filter_cong)
  then show ?thesis
    by (simp add: active_count_def)
qed

section \<open>Every operation keeps the counters right\<close>

lemma same_session:
  assumes "schema_ok d" and "find_session d sid = Some s0" and "s \<in> set (sessions d)"
    and "s_id s = sid"
  shows "s = s0"
proof -
  from assms(1) have "inj_on s_id (set (sessions d))"
    by (simp add: schema_ok_def distinct_map)
  moreover from find_session_Some [OF assms(2)] have "s0 \<in> set (sessions d)" "s_id s0 = sid"
    by simp_all
  ultimately show ?thesis using assms(3,4) by (auto dest: inj_onD)
qed

lemma counts_ok_CreateSession:
  assumes "CreateSession tin fmt now d req = Inr (sess, d')" and "schema_ok d" and "counts_ok d"
  shows "counts_ok d'"
proof -
  from CreateSession_Inr [OF assms(1)] obtain x where
    cap: "\<not> missing_required_fields req" and
    ins: "insert_session tin now d (req_Title req) (req_Description req) (req_CoachId req)
       ''Coach Name'' (req_Capacity req) (req_StartTime req) (req_EndTime req) (req_Location req)
       (req_SessionType req) (req_DifficultyLevel req) = Inr (x, d')" by blast
  from insert_session_Inr [OF ins] obtain row where
    d': "d' = d\<lparr>sessions := sessions d @ [row], sessions_id_seq := sessions_id_seq d + 1\<rparr>"
    and row: "s_id row = sessions_id_seq d" "s_reserved_spots row = 0"
             "s_capacity row = req_Capacity req" by blast
  from assms(2) have "sessions_id_seq d \<notin> r_session_id ` set (reservations d)"
    by (fastforce simp: schema_ok_def)
  then have zero: "active_count d (sessions_id_seq d) = 0"
    by (rule active_count_unreferenced)
  from cap have "1 \<le> req_Capacity req"
    by (simp add: missing_required_fields_def)
  with assms(3) zero row show ?thesis
    unfolding counts_ok_def d' by auto
qed

lemma counts_ok_CreateReservation:
  assumes "CreateReservation now un d sid uid = Inr (row, d')" and "schema_ok d" and "counts_ok d"
  shows "counts_ok d'"
proof -
  let ?d0 = "delete_cancelled d sid (stored_varchar 100 uid)"
  from CreateReservation_Inr [OF assms(1)] obtain s0 d1 where
    s0: "find_session d sid = Some s0" and room: "s_reserved_spots s0 \<noteq> s_capacity s0" and
    ins: "insert_reservation now ?d0 sid uid un = Inr (row, d1)" and
    d': "d' = update_session d1 sid (\<lambda>old. old\<lparr>s_reserved_spots := s_reserved_spots old + 1\<rparr>)"
    by blast
  from insert_reservation_Inr [OF ins] have
    d1: "d1 = ?d0\<lparr>reservations := reservations ?d0 @ [row],
                 reservations_id_seq := reservations_id_seq ?d0 + 1\<rparr>"
    and row: "r_session_id row = sid" "r_status row = Confirmed" by simp_all
  have "active_count d1 k = active_count ?d0 k + (if sid = k then 1 else 0)" for k
    unfolding d1 by (simp only: active_count_append row) simp
  then have cnt: "active_count d1 k = active_count d k + (if sid = k then 1 else 0)" for k
    by simp
  have ss: "sessions d1 = sessions d" unfolding d1 by simp
  show ?thesis
    unfolding counts_ok_def
  proof
    fix s' assume "s' \<in> set (sessions d')"
    then obtain s where s: "s \<in> set (sessions d)" and
      s': "s' = (if s_id s = sid then s\<lparr>s_reserved_spots := s_reserved_spots s + 1\<rparr> else s)"
      unfolding d' by (auto simp: ss)
    from assms(3) s have ok: "s_reserved_spots s = active_count d (s_id s)"
      "s_reserved_spots s \<le> s_capacity s" by (auto simp: counts_ok_def)
    show "s_reserved_spots s' = active_count d' (s_id s') \<and> s_reserved_spots s' \<le> s_capacity s'"
    proof (cases "s_id s = sid")
      case True
      with same_session [OF assms(2) s0 s] have "s = s0" by simp
      with room ok True show ?thesis unfolding s' d' by (simp add: cnt)
    next
      case False
      with ok show ?thesis unfolding s' d' by (simp add: cnt)
    qed
  qed
qed

lemma counts_ok_CancelReservation:
  assumes "CancelReservation d rid caller adm = Inr d'" and "schema_ok d" and "counts_ok d"
  shows "counts_ok d'"
proof -
  from CancelReservation_Inr [OF assms(1)] obtain r where
    r: "find_reservation d rid = Some r" "r_status r = Confirmed" and
    d': "d' = update_session (update_reservation d rid (\<lambda>old. old\<lparr>r_status := Cancelled\<rparr>))
             (r_session_id r) (\<lambda>old. old\<lparr>s_reserved_spots := max 0 (s_reserved_spots old - 1)\<rparr>)"
    by blast
  from assms(2) have dist: "distinct (map r_id (reservations d))"
    by (simp add: schema_ok_def)
  have cnt: "active_count d' k + (if r_session_id r = k then 1 else 0) = active_count d k" for k
    unfolding d' using active_count_cancel [OF dist r] by simp
  show ?thesis
    unfolding counts_ok_def
  proof
    fix s' assume "s' \<in> set (sessions d')"
    then obtain s where s: "s \<in> set (sessions d)" and
      s': "s' = (if s_id s = r_session_id r
                 then s\<lparr>s_reserved_spots := max 0 (s_reserved_spots s - 1)\<rparr> else s)"
      unfolding d' by auto
    from assms(3) s have ok: "s_reserved_spots s = active_count d (s_id s)"
      "s_reserved_spots s \<le> s_capacity s" by (auto simp: counts_ok_def)
    show "s_reserved_spots s' = active_count d' (s_id s') \<and> s_reserved_spots s' \<le> s_capacity s'"
    proof (cases "s_id s = r_session_id r")
      case True
      from cnt [of "s_id s"] True have "active_count d' (s_id s) + 1 = active_count d (s_id s)"
        by simp
      moreover have "0 \<le> active_count d' (s_id s)" by (rule active_count_nonneg)
      ultimately show ?thesis using ok True unfolding s' by simp
    next
      case False
      with cnt [of "s_id s"] ok show ?thesis unfolding s' by simp
    qed
  qed
qed

lemma counts_ok_UpdateSession:
  assumes "UpdateSession now d sid p = Inr (u, d')" and "schema_ok d" and "counts_ok d"
  shows "counts_ok d'"
proof -
  from UpdateSession_Inr [OF assms(1)] have d': "d' = update_session d sid (\<lambda>old. u)"
    by blast
  from UpdateSession_row [OF assms(1)] obtain s0 where
    u: "s_id u = sid" "s_reserved_spots u = s_reserved_spots s0" "s_reserved_spots u \<le> s_capacity u"
    and s0: "find_session d sid = Some s0" by blast
  show ?thesis
    unfolding counts_ok_def
  proof
    fix s' assume "s' \<in> set (sessions d')"
    then obtain s where s: "s \<in> set (sessions d)" and
      s': "s' = (if s_id s = sid then u else s)"
      unfolding d' by auto
    from assms(3) s have ok: "s_reserved_spots s = active_count d (s_id s)"
      "s_reserved_spots s \<le> s_capacity s" by (auto simp: counts_ok_def)
    show "s_reserved_spots s' = active_count d' (s_id s') \<and> s_reserved_spots s' \<le> s_capacity s'"
    proof (cases "s_id s = sid")
      case True
      with same_session [OF assms(2) s0 s] have "s = s0" by simp
      with u ok True show ?thesis unfolding s' d' by simp
    next
      case False
      with ok show ?thesis unfolding s' d' by simp
    qed
  qed
qed

lemma counts_ok_DeleteSession:
  assumes "DeleteSession d sid = Inr d'" and "counts_ok d"
  shows "counts_ok d'"
  using assms(2) unfolding DeleteSession_Inr [OF assms(1)] counts_ok_def
  by (auto simp: active_count_delete_session)

section \<open>The capacity of a session\<close>

lemma counts_ok_apply_call:
  assumes "schema_ok d" and "counts_ok d"
  shows "counts_ok (apply_call tin fmt d c)"
proof (cases c)
  case (CallCreateSession now req)
  then show ?thesis using assms
    by (cases "CreateSession tin fmt now d req") (auto simp: after_def dest: counts_ok_CreateSession)
next
  case (CallUpdateSession now sid p)
  then show ?thesis using assms
    by (cases "UpdateSession now d sid p") (auto simp: after_def dest: counts_ok_UpdateSession)
next
  case (CallDeleteSession sid)
  then show ?thesis using assms
    by (cases "DeleteSession d sid") (auto dest: counts_ok_DeleteSession)
next
  case (CallCreateReservation now un sid uid)
  then show ?thesis using assms
    by (cases "CreateReservation now un d sid uid")
       (auto simp: after_def dest: counts_ok_CreateReservation)
next
  case (CallCancelReservation rid caller adm)
  then show ?thesis using assms
    by (cases "CancelReservation d rid caller adm") (auto dest: counts_ok_CancelReservation)
qed

lemma counts_ok_run:
  "schema_ok d \<Longrightarrow> counts_ok d \<Longrightarrow> counts_ok (run tin fmt d cs)"
  by (induction cs arbitrary: d) (simp_all add: schema_ok_apply_call counts_ok_apply_call)

lemma counts_ok_capacity: "counts_ok d \<Longrightarrow> capacity_respected d"
  by (auto simp: counts_ok_def capacity_respected_def)

lemma find_update_same:
  assumes "\<And>s. s_id (f s) = s_id s"
  shows "find (\<lambda>s. s_id s = sid) (map (\<lambda>s. if s_id s = sid then f s else s) xs) =
         map_option f (find (\<lambda>s. s_id s = sid) xs)"
  by (induction xs) (simp_all add: assms)

lemma find_session_update_session:
  assumes "\<And>s. s_id (f s) = s_id s"
  shows "find_session (update_session d sid f) sid = map_option f (find_session d sid)"
  unfolding find_session_def update_session_fields by (rule find_update_same) (rule assms)

lemma find_session_reservations_upd [simp]:
  "find_session (d\<lparr>reservations := rs, reservations_id_seq := n\<rparr>) sid = find_session d sid"
  by (simp add: find_session_def)

lemma find_session_delete_cancelled [simp]:
  "find_session (delete_cancelled d k uid) sid = find_session d sid"
  by (simp add: find_session_def)

lemma find_reservation_update_session [simp]:
  "find_reservation (update_session d sid f) rid = find_reservation d rid"
  by (simp add: find_reservation_def)

lemma find_session_update_reservation [simp]:
  "find_session (update_reservation d rid f) sid = find_session d sid"
  by (simp add: find_session_def)

lemma no_row_no_active:
  "(sid, uid) \<notin> set (map (\<lambda>r. (r_session_id r, r_user_id r)) (reservations d)) \<Longrightarrow>
   \<not> has_active_reservation d sid uid"
  by (force simp: has_active_reservation_def)

lemma no_active_pair_cleared:
  assumes "\<not> has_active_reservation d sid uid"
  shows "(sid, uid) \<notin> set (map (\<lambda>r. (r_session_id r, r_user_id r))
           (reservations (delete_cancelled d sid uid)))"
proof
  assume "(sid, uid) \<in> set (map (\<lambda>r. (r_session_id r, r_user_id r))
           (reservations (delete_cancelled d sid uid)))"
  then obtain r where r: "r \<in> set (reservations d)" "r_session_id r = sid" "r_user_id r = uid"
    "r_status r \<noteq> Cancelled"
    by auto
  then have "r_status r = Confirmed"
    by (cases "r_status r") simp_all
  with r assms show False
    by (auto simp: has_active_reservation_def)
qed

lemma delete_cancelled_nothing:
  assumes "(sid, uid) \<notin> set (map (\<lambda>r. (r_session_id r, r_user_id r)) (reservations d))"
  shows "delete_cancelled d sid uid = d"
proof -
  from assms have "filter (\<lambda>r. \<not> (r_session_id r = sid \<and> r_user_id r = uid \<and> r_status r = Cancelled))
      (reservations d) = reservations d"
    by (force simp: filter_id_conv)
  then show ?thesis
    by (simp add: delete_cancelled_def)
qed

lemma CreateReservation_admits:
  assumes "find_session d sid = Some s" and "\<not> s_is_cancelled s" and "\<not> s_end_time s < now"
    and "s_reserved_spots s \<noteq> s_capacity s" and "\<not> has_active_reservation d sid uid"
    and "char_length uid \<le> 100" and "char_length un \<le> 255" and "text_ok uid" and "text_ok un"
  shows "\<exists>row. CreateReservation now un d sid uid =
      Inr (row, update_session
                  ((delete_cancelled d sid uid)
                     \<lparr>reservations := reservations (delete_cancelled d sid uid) @ [row],
                      reservations_id_seq := reservations_id_seq d + 1\<rparr>) sid
                  (\<lambda>old. old\<lparr>s_reserved_spots := s_reserved_spots old + 1\<rparr>)) \<and>
      r_session_id row = sid \<and> r_user_id row = uid \<and> r_user_name row = un \<and>
      r_status row = Confirmed \<and> r_id row = reservations_id_seq d"
proof -
  let ?d0 = "delete_cancelled d sid uid"
  let ?row = "\<lparr>r_id = reservations_id_seq d, r_session_id = sid, r_user_id = uid,
               r_user_name = un, r_reservation_time = now, r_status = Confirmed,
               r_created_at = now, r_updated_at = now\<rparr>"
  from find_session_Some [OF assms(1)] have fk: "sid \<in> set (map s_id (sessions ?d0))" by auto
  have free: "(sid, uid) \<notin> set (map (\<lambda>r. (r_session_id r, r_user_id r)) (reservations ?d0))"
    by (rule no_active_pair_cleared) (rule assms(5))
  from assms(6,7) have v: "varchar_in 100 uid = Inr uid" "varchar_in 255 un = Inr un"
    by (simp_all add: varchar_in_fits)
  from fk free v assms(8,9) have ins: "insert_reservation now ?d0 sid uid un =
      Inr (?row, ?d0\<lparr>reservations := reservations ?d0 @ [?row],
                      reservations_id_seq := reservations_id_seq d + 1\<rparr>)"
    by (simp add: insert_reservation_def Let_def)
  from assms(6) have st: "stored_varchar 100 uid = uid"
    by (rule stored_varchar_fits)
  from assms(1-5) ins have "CreateReservation now un d sid uid =
      Inr (?row, update_session
                  (?d0\<lparr>reservations := reservations ?d0 @ [?row],
                       reservations_id_seq := reservations_id_seq d + 1\<rparr>) sid
                  (\<lambda>old. old\<lparr>s_reserved_spots := s_reserved_spots old + 1\<rparr>))"
    by (simp add: CreateReservation_def st)
  then show ?thesis
    by (intro exI [of _ ?row]) simp
qed

text \<open>
  C1. Whatever calls reach the store, in whatever order, no session ever has more active
  reservations than its capacity: this holds from the empty database, and from every
  database that meets the schema's constraints and whose counters are right. A reservation
  request that passes the first three checks against a session whose counter equals its
  capacity fails with \<open>ResourceExhausted\<close>. When two users with no reservation yet request
  the one place of a session of capacity 1, the first request to reach the store is
  confirmed, the second fails with \<open>ResourceExhausted\<close> and the counter is 1; the two users
  are arbitrary, so this holds for both orders. The first user's id and name are texts the
  store takes as they are.
\<close>

theorem capacity_invariant:
  "capacity_respected (run tin fmt empty_db cs) \<and>
   (schema_ok d0 \<and> counts_ok d0 \<longrightarrow> capacity_respected (run tin fmt d0 cs)) \<and>
   (find_session d sid = Some s \<and> \<not> s_is_cancelled s \<and> \<not> s_end_time s < now \<and>
    \<not> has_active_reservation d sid uid \<and> s_reserved_spots s = s_capacity s \<longrightarrow>
      CreateReservation now un d sid uid = Inl ResourceExhausted) \<and>
   (find_session e k = Some t \<and> \<not> s_is_cancelled t \<and> \<not> s_end_time t < now_a \<and>
    \<not> s_end_time t < now_b \<and> s_capacity t = 1 \<and> s_reserved_spots t = 0 \<and> a \<noteq> b \<and>
    (k, a) \<notin> set (map (\<lambda>r. (r_session_id r, r_user_id r)) (reservations e)) \<and>
    (k, b) \<notin> set (map (\<lambda>r. (r_session_id r, r_user_id r)) (reservations e)) \<and>
    char_length a \<le> 100 \<and> char_length name_a \<le> 255 \<and> text_ok a \<and> text_ok name_a \<longrightarrow>
      (\<exists>row d1. CreateReservation now_a name_a e k a = Inr (row, d1) \<and>
         r_status row = Confirmed \<and> r_user_id row = a \<and>
         CreateReservation now_b name_b d1 k b = Inl ResourceExhausted \<and>
         map_option s_reserved_spots (find_session d1 k) = Some 1))"
proof (intro conjI impI)
  show "capacity_respected (run tin fmt empty_db cs)"
    by (simp add: counts_ok_capacity counts_ok_run schema_ok_empty_db counts_ok_empty_db)
next
  assume "schema_ok d0 \<and> counts_ok d0"
  then show "capacity_respected (run tin fmt d0 cs)"
    by (simp add: counts_ok_capacity counts_ok_run)
next
  assume "find_session d sid = Some s \<and> \<not> s_is_cancelled s \<and> \<not> s_end_time s < now \<and>
    \<not> has_active_reservation d sid uid \<and> s_reserved_spots s = s_capacity s"
  then show "CreateReservation now un d sid uid = Inl ResourceExhausted"
    by (simp add: CreateReservation_def)
next
  assume h: "find_session e k = Some t \<and> \<not> s_is_cancelled t \<and> \<not> s_end_time t < now_a \<and>
    \<not> s_end_time t < now_b \<and> s_capacity t = 1 \<and> s_reserved_spots t = 0 \<and> a \<noteq> b \<and>
    (k, a) \<notin> set (map (\<lambda>r. (r_session_id r, r_user_id r)) (reservations e)) \<and>
    (k, b) \<notin> set (map (\<lambda>r. (r_session_id r, r_user_id r)) (reservations e)) \<and>
    char_length a \<le> 100 \<and> char_length name_a \<le> 255 \<and> text_ok a \<and> text_ok name_a"
  let ?inc = "\<lambda>old. old\<lparr>s_reserved_spots := s_reserved_spots old + 1\<rparr>"
  from h have room: "s_reserved_spots t \<noteq> s_capacity t" by simp
  from h have free_a: "\<not> has_active_reservation e k a" and free_b: "\<not> has_active_reservation e k b"
    by (simp_all add: no_row_no_active)
  from h have same: "delete_cancelled e k a = e"
    by (simp add: delete_cancelled_nothing)
  from h room free_a CreateReservation_admits [of e k t now_a a name_a] obtain row where
    first: "CreateReservation now_a name_a e k a =
      Inr (row, update_session
                  (e\<lparr>reservations := reservations e @ [row],
                     reservations_id_seq := reservations_id_seq e + 1\<rparr>) k ?inc)"
    and row: "r_session_id row = k" "r_user_id row = a" "r_status row = Confirmed"
    unfolding same by blast
  let ?d1 = "update_session (e\<lparr>reservations := reservations e @ [row],
                     reservations_id_seq := reservations_id_seq e + 1\<rparr>) k ?inc"
  from h have found: "find_session ?d1 k = Some (?inc t)"
    by (simp add: find_session_update_session)
  from free_b h row have "\<not> has_active_reservation ?d1 k b"
    by (auto simp: has_active_reservation_def)
  with found h have "CreateReservation now_b name_b ?d1 k b = Inl ResourceExhausted"
    by (simp add: CreateReservation_def)
  with first row found h show "\<exists>row d1. CreateReservation now_a name_a e k a = Inr (row, d1) \<and>
         r_status row = Confirmed \<and> r_user_id row = a \<and>
         CreateReservation now_b name_b d1 k b = Inl ResourceExhausted \<and>
         map_option s_reserved_spots (find_session d1 k) = Some 1"
    by simp
qed

theorem capacity_invariant_witness:
  "capacity_respected
     (run sample_timestamp_in sample_formatTimestamp single_db
        [CallCreateReservation 1746101100 ''Alice'' 1 ''user-A'',
         CallCreateReservation 1746101100 ''Bob'' 1 ''user-B'']) \<and>
   CreateReservation 1746101100 ''Bob'' full_db 1 ''user-B'' = Inl ResourceExhausted \<and>
   (\<exists>row d1. CreateReservation 1746101100 ''Alice'' single_db 1 ''user-A'' = Inr (row, d1) \<and>
      r_status row = Confirmed \<and> r_user_id row = ''user-A'' \<and>
      CreateReservation 1746101100 ''Bob'' d1 1 ''user-B'' = Inl ResourceExhausted \<and>
      map_option s_reserved_spots (find_session d1 1) = Some 1)"
proof -
  have h1: "schema_ok single_db \<and> counts_ok single_db"
    by code_simp
  have h2: "find_session full_db 1 = Some (yoga_row\<lparr>s_capacity := 1, s_reserved_spots := 1\<rparr>) \<and>
    \<not> s_is_cancelled (yoga_row\<lparr>s_capacity := 1, s_reserved_spots := 1\<rparr>) \<and>
    \<not> s_end_time (yoga_row\<lparr>s_capacity := 1, s_reserved_spots := 1\<rparr>) < 1746101100 \<and>
    \<not> has_active_reservation full_db 1 ''user-B'' \<and>
    s_reserved_spots (yoga_row\<lparr>s_capacity := 1, s_reserved_spots := 1\<rparr>) =
    s_capacity (yoga_row\<lparr>s_capacity := 1, s_reserved_spots := 1\<rparr>)"
    by code_simp
  have h3: "find_session single_db 1 = Some (yoga_row\<lparr>s_capacity := 1\<rparr>) \<and>
    \<not> s_is_cancelled (yoga_row\<lparr>s_capacity := 1\<rparr>) \<and>
    \<not> s_end_time (yoga_row\<lparr>s_capacity := 1\<rparr>) < 1746101100 \<and>
    \<not> s_end_time (yoga_row\<lparr>s_capacity := 1\<rparr>) < 1746101100 \<and>
    s_capacity (yoga_row\<lparr>s_capacity := 1\<rparr>) = 1 \<and>
    s_reserved_spots (yoga_row\<lparr>s_capacity := 1\<rparr>) = 0 \<and> ''user-A'' \<noteq> ''user-B'' \<and>
    (1, ''user-A'') \<notin> set (map (\<lambda>r. (r_session_id r, r_user_id r)) (reservations single_db)) \<and>
    (1, ''user-B'') \<notin> set (map (\<lambda>r. (r_session_id r, r_user_id r)) (reservations single_db)) \<and>
    char_length ''user-A'' \<le> 100 \<and> char_length ''Alice'' \<le> 255 \<and>
    text_ok ''user-A'' \<and> text_ok ''Alice''"
    by code_simp
  from h1 h2 h3
    capacity_invariant [where ?d0.0 = single_db and tin = sample_timestamp_in
      and fmt = sample_formatTimestamp
      and cs = "[CallCreateReservation 1746101100 ''Alice'' 1 ''user-A'',
                 CallCreateReservation 1746101100 ''Bob'' 1 ''user-B'']"
      and d = full_db and sid = 1 and s = "yoga_row\<lparr>s_capacity := 1, s_reserved_spots := 1\<rparr>"
      and now = 1746101100 and uid = "''user-B''" and un = "''Bob''"
      and e = single_db and k = 1 and t = "yoga_row\<lparr>s_capacity := 1\<rparr>"
      and now_a = 1746101100 and now_b = 1746101100 and a = "''user-A''" and b = "''user-B''"
      and name_a = "''Alice''" and name_b = "''Bob''"]
  show ?thesis by blast
qed

section \<open>One active reservation for a session and a user\<close>

lemma unique_key_filter:
  "distinct (map f xs) \<Longrightarrow> length (filter (\<lambda>x. f x = v \<and> P x) xs) \<le> 1"
proof (induction xs)
  case Nil
  then show ?case by simp
next
  case (Cons x xs)
  show ?case
  proof (cases "f x = v")
    case True
    with Cons.prems have "v \<notin> f ` set xs" by auto
    then have "filter (\<lambda>x. f x = v \<and> P x) xs = []"
      by (auto simp: filter_empty_conv)
    then show ?thesis by simp
  next
    case False
    with Cons show ?thesis by simp
  qed
qed

lemma confirmed_for_le_1:
  assumes "schema_ok d"
  shows "length (confirmed_for d sid uid) \<le> 1"
proof -
  from assms have "distinct (map (\<lambda>r. (r_session_id r, r_user_id r)) (reservations d))"
    by (simp add: schema_ok_def)
  from unique_key_filter [OF this, of "(sid, uid)" "\<lambda>r. r_status r = Confirmed"]
  show ?thesis by (simp add: confirmed_for_def conj_assoc)
qed

text \<open>
  C2. A reservation request for a pair that already holds an active reservation always
  fails, and with \<open>AlreadyExists\<close> when the session passes the two earlier checks (it exists,
  is not cancelled and has not ended). From the empty database, and from every database
  that meets the schema's constraints, no sequence of calls, in whatever order they reach
  the store, leaves two confirmed reservations for one pair of session and user.
\<close>

theorem no_duplicate_active_reservation:
  "(find_session d sid = Some s \<and> \<not> s_is_cancelled s \<and> \<not> s_end_time s < now \<and>
    has_active_reservation d sid uid \<longrightarrow>
      CreateReservation now un d sid uid = Inl AlreadyExists) \<and>
   (has_active_reservation d sid uid \<longrightarrow>
      CreateReservation now un d sid uid \<in> {Inl NotFound, Inl FailedPrecondition, Inl AlreadyExists}) \<and>
   (schema_ok d0 \<longrightarrow> length (confirmed_for (run tin fmt d0 cs) k u) \<le> 1) \<and>
   length (confirmed_for (run tin fmt empty_db cs) k u) \<le> 1"
proof (intro conjI impI)
  have "schema_ok (run tin fmt empty_db cs)"
    by (rule schema_ok_run) (rule schema_ok_empty_db)
  then show "length (confirmed_for (run tin fmt empty_db cs) k u) \<le> 1"
    by (rule confirmed_for_le_1)
next
  assume "find_session d sid = Some s \<and> \<not> s_is_cancelled s \<and> \<not> s_end_time s < now \<and>
    has_active_reservation d sid uid"
  then show "CreateReservation now un d sid uid = Inl AlreadyExists"
    by (simp add: CreateReservation_def)
next
  assume "has_active_reservation d sid uid"
  then show "CreateReservation now un d sid uid \<in>
      {Inl NotFound, Inl FailedPrecondition, Inl AlreadyExists}"
    by (simp add: CreateReservation_def split: option.splits)
next
  assume "schema_ok d0"
  then have "schema_ok (run tin fmt d0 cs)" by (rule schema_ok_run)
  then show "length (confirmed_for (run tin fmt d0 cs) k u) \<le> 1"
    by (rule confirmed_for_le_1)
qed

theorem no_duplicate_active_reservation_witness:
  "CreateReservation 1746101100 ''Alice'' reserved_db 1 ''user-A'' = Inl AlreadyExists \<and>
   length (confirmed_for
     (run sample_timestamp_in sample_formatTimestamp yoga_db
        [CallCreateReservation 1746101100 ''Alice'' 1 ''user-A'',
         CallCreateReservation 1746101100 ''Alice'' 1 ''user-A''])
     1 ''user-A'') \<le> 1"
proof -
  have h1: "find_session reserved_db 1 = Some (yoga_row\<lparr>s_reserved_spots := 1\<rparr>) \<and>
    \<not> s_is_cancelled (yoga_row\<lparr>s_reserved_spots := 1\<rparr>) \<and>
    \<not> s_end_time (yoga_row\<lparr>s_reserved_spots := 1\<rparr>) < 1746101100 \<and>
    has_active_reservation reserved_db 1 ''user-A''"
    by code_simp
  have h2: "schema_ok yoga_db"
    by code_simp
  from h1 h2
    no_duplicate_active_reservation [where d = reserved_db and sid = 1
      and s = "yoga_row\<lparr>s_reserved_spots := 1\<rparr>" and now = 1746101100
      and uid = "''user-A''" and un = "''Alice''" and ?d0.0 = yoga_db
      and tin = sample_timestamp_in and fmt = sample_formatTimestamp
      and cs = "[CallCreateReservation 1746101100 ''Alice'' 1 ''user-A'',
                 CallCreateReservation 1746101100 ''Alice'' 1 ''user-A'']"
      and k = 1 and u = "''user-A''"]
  show ?thesis by blast
qed

section \<open>Reserving again after a cancellation\<close>





section \<open>One row for a session and a user\<close>

lemma pair_taken_apply_call:
  assumes "pair_taken d sid uid" and "c \<noteq> CallDeleteSession sid"
  shows "pair_taken (apply_call tin fmt d c) sid uid"
proof (cases c)
  case (CallCreateSession now req)
  show ?thesis
  proof (cases "CreateSession tin fmt now d req")
    case (Inl err)
    with assms CallCreateSession show ?thesis by (simp add: after_def)
  next
    case (Inr res)
    then obtain sess d' where "CreateSession tin fmt now d req = Inr (sess, d')"
      by (cases res) simp
    with CreateSession_Inr [OF this] assms CallCreateSession show ?thesis
      by (auto simp: after_def pair_taken_def dest!: insert_session_Inr)
  qed
next
  case (CallUpdateSession now k p)
  show ?thesis
  proof (cases "UpdateSession now d k p")
    case (Inl err)
    with assms CallUpdateSession show ?thesis by (simp add: after_def)
  next
    case (Inr res)
    then obtain u d' where "UpdateSession now d k p = Inr (u, d')"
      by (cases res) simp
    with UpdateSession_Inr [OF this] assms CallUpdateSession show ?thesis
      by (auto simp: after_def pair_taken_def)
  qed
next
  case (CallDeleteSession k)
  with assms have "k \<noteq> sid" by simp
  with assms CallDeleteSession show ?thesis
    by (cases "DeleteSession d k") (auto simp: pair_taken_def dest!: DeleteSession_Inr)
next
  case (CallCreateReservation now un k u)
  show ?thesis
  proof (cases "CreateReservation now un d k u")
    case (Inl err)
    with assms CallCreateReservation show ?thesis by (simp add: after_def)
  next
    case (Inr res)
    then obtain row d' where cr: "CreateReservation now un d k u = Inr (row, d')"
      by (cases res) simp
    let ?d0 = "delete_cancelled d k (stored_varchar 100 u)"
    from CreateReservation_Inr [OF cr] obtain d1 where
      ins: "insert_reservation now ?d0 k u un = Inr (row, d1)" and
      d': "d' = update_session d1 k (\<lambda>old. old\<lparr>s_reserved_spots := s_reserved_spots old + 1\<rparr>)"
      by blast
    note f = insert_reservation_Inr [OF ins]
    from f(4) have u: "stored_varchar 100 u = r_user_id row"
      by (rule stored_varchar_Inr)
    have res: "reservations d' = reservations ?d0 @ [row]"
      unfolding d' f(1) by simp
    from assms(1) obtain r where r: "r \<in> set (reservations d)" "r_session_id r = sid"
      "r_user_id r = uid"
      by (auto simp: pair_taken_def)
    have "pair_taken d' sid uid"
    proof (cases "r_session_id r = k \<and> r_user_id r = stored_varchar 100 u \<and> r_status r = Cancelled")
      case True
      with r f(3) u have "(sid, uid) = (r_session_id row, r_user_id row)"
        by simp
      then show ?thesis
        unfolding pair_taken_def res by simp
    next
      case False
      with r have "r \<in> set (reservations ?d0)"
        by auto
      with r(2,3) show ?thesis
        unfolding pair_taken_def res by force
    qed
    with CallCreateReservation cr show ?thesis
      by (simp add: after_def)
  qed
next
  case (CallCancelReservation rid caller adm)
  show ?thesis
  proof (cases "CancelReservation d rid caller adm")
    case (Inl err)
    with assms CallCancelReservation show ?thesis by simp
  next
    case (Inr d')
    from CancelReservation_Inr [OF Inr] obtain x :: reservation_row where
      "d' = update_session (update_reservation d rid (\<lambda>old. old\<lparr>r_status := Cancelled\<rparr>))
              (r_session_id x) (\<lambda>old. old\<lparr>s_reserved_spots := max 0 (s_reserved_spots old - 1)\<rparr>)"
      by blast
    then have res: "reservations d' =
        map (\<lambda>r. if r_id r = rid then r\<lparr>r_status := Cancelled\<rparr> else r) (reservations d)"
      by simp
    have "map (\<lambda>r. (r_session_id r, r_user_id r)) (reservations d')
          = map (\<lambda>r. (r_session_id r, r_user_id r)) (reservations d)"
      unfolding res by (rule map_id_update) simp
    then have "pair_taken d' sid uid = pair_taken d sid uid"
      by (simp only: pair_taken_def)
    with assms CallCancelReservation Inr show ?thesis
      by simp
  qed
qed

lemma pair_taken_run:
  "pair_taken d sid uid \<Longrightarrow> CallDeleteSession sid \<notin> set cs \<Longrightarrow>
   pair_taken (run tin fmt d cs) sid uid"
proof (induction cs arbitrary: d)
  case Nil
  then show ?case by simp
next
  case (Cons c cs)
  from Cons.prems have "c \<noteq> CallDeleteSession sid" "CallDeleteSession sid \<notin> set cs" by auto
  with Cons.prems(1) Cons.IH show ?case
    by (simp add: pair_taken_apply_call)
qed

lemma only_row_of_pair:
  assumes "distinct (map f xs)" and "r \<in> set xs" and "x \<in> set xs" and "f x = f r"
  shows "x = r"
  using assms by (auto simp: distinct_map dest: inj_onD)

text \<open>
  C9. The table holds one row for a pair of session and user: an insert for a pair that has
  a row is refused, whatever the status of that row, and with the unique violation when the
  session exists and the two texts are ones the store takes as they are. This holds when
  the row is cancelled. The pair stays taken through every sequence of calls that does not
  delete its session. Once the row has been deleted, the insert for the pair is accepted.
  The user id is one that fits its column, as the id of every stored row does.
\<close>

theorem one_row_per_pair:
  "(pair_taken d sid uid \<and> char_length uid \<le> 100 \<longrightarrow>
      insert_reservation now d sid uid un \<in>
        {Inl CharacterNotInRepertoire, Inl StringDataRightTruncation, Inl UniqueViolation}) \<and>
   (pair_taken d sid uid \<and> sid \<in> set (map s_id (sessions d)) \<and> char_length uid \<le> 100 \<and>
    char_length un \<le> 255 \<and> text_ok uid \<and> text_ok un \<longrightarrow>
      insert_reservation now d sid uid un = Inl UniqueViolation) \<and>
   (r \<in> set (reservations d) \<and> r_status r = Cancelled \<and> r_session_id r = sid \<and>
    r_user_id r = uid \<and> sid \<in> set (map s_id (sessions d)) \<and> char_length uid \<le> 100 \<and>
    char_length un \<le> 255 \<and> text_ok uid \<and> text_ok un \<longrightarrow>
      insert_reservation now d sid uid un = Inl UniqueViolation) \<and>
   (pair_taken d sid uid \<and> CallDeleteSession sid \<notin> set cs \<longrightarrow>
      pair_taken (run tin fmt d cs) sid uid) \<and>
   (schema_ok d \<and> r \<in> set (reservations d) \<and> r_session_id r = sid \<and> r_user_id r = uid \<and>
    char_length uid \<le> 100 \<and> char_length un \<le> 255 \<and> text_ok uid \<and> text_ok un \<longrightarrow>
      \<not> pair_taken (delete_reservation d (r_id r)) sid uid \<and>
      (\<exists>row d'. insert_reservation now (delete_reservation d (r_id r)) sid uid un = Inr (row, d')))"
proof (intro conjI impI)
  assume h: "pair_taken d sid uid \<and> char_length uid \<le> 100"
  then have "varchar_in 100 uid = Inr uid"
    by (simp add: varchar_in_fits)
  with h show "insert_reservation now d sid uid un \<in>
        {Inl CharacterNotInRepertoire, Inl StringDataRightTruncation, Inl UniqueViolation}"
    by (auto simp: insert_reservation_def pair_taken_def split: sum.splits
          dest: varchar_in_Inl)
next
  assume "pair_taken d sid uid \<and> sid \<in> set (map s_id (sessions d)) \<and> char_length uid \<le> 100 \<and>
    char_length un \<le> 255 \<and> text_ok uid \<and> text_ok un"
  then show "insert_reservation now d sid uid un = Inl UniqueViolation"
    by (simp add: insert_reservation_def pair_taken_def varchar_in_fits)
next
  assume h: "r \<in> set (reservations d) \<and> r_status r = Cancelled \<and> r_session_id r = sid \<and>
    r_user_id r = uid \<and> sid \<in> set (map s_id (sessions d)) \<and> char_length uid \<le> 100 \<and>
    char_length un \<le> 255 \<and> text_ok uid \<and> text_ok un"
  then have "(sid, uid) \<in> set (map (\<lambda>r. (r_session_id r, r_user_id r)) (reservations d))"
    by force
  with h show "insert_reservation now d sid uid un = Inl UniqueViolation"
    by (simp add: insert_reservation_def varchar_in_fits)
next
  assume "pair_taken d sid uid \<and> CallDeleteSession sid \<notin> set cs"
  then show "pair_taken (run tin fmt d cs) sid uid"
    by (simp add: pair_taken_run)
next
  assume h: "schema_ok d \<and> r \<in> set (reservations d) \<and> r_session_id r = sid \<and>
    r_user_id r = uid \<and> char_length uid \<le> 100 \<and> char_length un \<le> 255 \<and>
    text_ok uid \<and> text_ok un"
  then have dist: "distinct (map (\<lambda>r. (r_session_id r, r_user_id r)) (reservations d))"
    and fk: "sid \<in> set (map s_id (sessions d))"
    by (auto simp: schema_ok_def)
  have gone: "\<not> pair_taken (delete_reservation d (r_id r)) sid uid"
  proof
    assume "pair_taken (delete_reservation d (r_id r)) sid uid"
    then obtain x where x: "x \<in> set (reservations d)" "r_id x \<noteq> r_id r"
      "(r_session_id x, r_user_id x) = (sid, uid)"
      by (auto simp: pair_taken_def)
    with h only_row_of_pair [OF dist, of r x] show False by auto
  qed
  then show "\<not> pair_taken (delete_reservation d (r_id r)) sid uid" .
  from gone fk h
  show "\<exists>row d'. insert_reservation now (delete_reservation d (r_id r)) sid uid un = Inr (row, d')"
    by (simp add: insert_reservation_def pair_taken_def Let_def varchar_in_fits)
qed

theorem one_row_per_pair_witness:
  "insert_reservation 1746101400 cancelled_db 1 ''user-A'' ''Alice'' = Inl UniqueViolation \<and>
   pair_taken (run sample_timestamp_in sample_formatTimestamp reserved_db
      [CallCancelReservation 1 ''user-A'' False]) 1 ''user-A'' \<and>
   \<not> pair_taken (delete_reservation cancelled_db 1) 1 ''user-A'' \<and>
   (\<exists>row d'. insert_reservation 1746101400 (delete_reservation cancelled_db 1) 1 ''user-A''
      ''Alice'' = Inr (row, d'))"
proof -
  have h1: "pair_taken cancelled_db 1 ''user-A'' \<and> (1::int) \<in> set (map s_id (sessions cancelled_db)) \<and>
    char_length ''user-A'' \<le> 100 \<and> char_length ''Alice'' \<le> 255 \<and>
    text_ok ''user-A'' \<and> text_ok ''Alice''"
    by code_simp
  have h2: "res_A\<lparr>r_status := Cancelled\<rparr> \<in> set (reservations cancelled_db) \<and>
    r_status (res_A\<lparr>r_status := Cancelled\<rparr>) = Cancelled \<and>
    r_session_id (res_A\<lparr>r_status := Cancelled\<rparr>) = 1 \<and>
    r_user_id (res_A\<lparr>r_status := Cancelled\<rparr>) = ''user-A'' \<and>
    r_id (res_A\<lparr>r_status := Cancelled\<rparr>) = 1"
    by code_simp
  have h3: "pair_taken reserved_db 1 ''user-A'' \<and>
    CallDeleteSession 1 \<notin> set [CallCancelReservation 1 ''user-A'' False]"
    by code_simp
  have h4: "schema_ok cancelled_db"
    by code_simp
  from h1 h2 h4 have a: "insert_reservation 1746101400 cancelled_db 1 ''user-A'' ''Alice'' = Inl UniqueViolation \<and>
   \<not> pair_taken (delete_reservation cancelled_db 1) 1 ''user-A'' \<and>
   (\<exists>row d'. insert_reservation 1746101400 (delete_reservation cancelled_db 1) 1 ''user-A''
      ''Alice'' = Inr (row, d'))"
    using one_row_per_pair [where d = cancelled_db and sid = 1 and uid = "''user-A''"
      and now = 1746101400 and un = "''Alice''" and r = "res_A\<lparr>r_status := Cancelled\<rparr>"
      and cs = "[]"]
    by simp
  from h3 have b: "pair_taken (run sample_timestamp_in sample_formatTimestamp reserved_db
      [CallCancelReservation 1 ''user-A'' False]) 1 ''user-A''"
    using one_row_per_pair [where d = reserved_db and sid = 1 and uid = "''user-A''"
      and cs = "[CallCancelReservation 1 ''user-A'' False]" and tin = sample_timestamp_in
      and fmt = sample_formatTimestamp]
    by blast
  from a b show ?thesis by blast
qed

section \<open>Cancellation is final, and the capacity cannot shrink below the counter\<close>

lemma cancelled_for_good_start:
  assumes "schema_ok d" and "r \<in> set (reservations d)" and "r_status r = Cancelled"
  shows "cancelled_for_good d (r_id r)"
proof -
  from assms(1) have dist: "distinct (map r_id (reservations d))"
    and fresh: "\<forall>x \<in> set (reservations d). r_id x < reservations_id_seq d"
    by (simp_all add: schema_ok_def)
  have "r_status x = Cancelled" if "x \<in> set (reservations d)" "r_id x = r_id r" for x
    using only_row_of_pair [OF dist assms(2) that] assms(3) by simp
  with fresh assms(2) show ?thesis
    by (auto simp: cancelled_for_good_def)
qed

lemma cancelled_for_good_apply_call:
  assumes "cancelled_for_good d i"
  shows "cancelled_for_good (apply_call tin fmt d c) i"
proof (cases c)
  case (CallCreateSession now req)
  show ?thesis
  proof (cases "CreateSession tin fmt now d req")
    case (Inl err)
    with assms CallCreateSession show ?thesis by (simp add: after_def)
  next
    case (Inr res)
    then obtain sess d' where "CreateSession tin fmt now d req = Inr (sess, d')"
      by (cases res) simp
    with CreateSession_Inr [OF this] assms CallCreateSession show ?thesis
      by (auto simp: after_def cancelled_for_good_def dest!: insert_session_Inr)
  qed
next
  case (CallUpdateSession now k p)
  show ?thesis
  proof (cases "UpdateSession now d k p")
    case (Inl err)
    with assms CallUpdateSession show ?thesis by (simp add: after_def)
  next
    case (Inr res)
    then obtain u d' where "UpdateSession now d k p = Inr (u, d')"
      by (cases res) simp
    with UpdateSession_Inr [OF this] assms CallUpdateSession show ?thesis
      by (auto simp: after_def cancelled_for_good_def)
  qed
next
  case (CallDeleteSession k)
  with assms show ?thesis
    by (cases "DeleteSession d k") (auto simp: cancelled_for_good_def dest!: DeleteSession_Inr)
next
  case (CallCreateReservation now un k u)
  show ?thesis
  proof (cases "CreateReservation now un d k u")
    case (Inl err)
    with assms CallCreateReservation show ?thesis by (simp add: after_def)
  next
    case (Inr res)
    then obtain row d' where cr: "CreateReservation now un d k u = Inr (row, d')"
      by (cases res) simp
    let ?d0 = "delete_cancelled d k (stored_varchar 100 u)"
    from CreateReservation_Inr [OF cr] obtain d1 where
      ins: "insert_reservation now ?d0 k u un = Inr (row, d1)" and
      d': "d' = update_session d1 k (\<lambda>old. old\<lparr>s_reserved_spots := s_reserved_spots old + 1\<rparr>)"
      by blast
    note f = insert_reservation_Inr [OF ins]
    have "reservations d' = reservations ?d0 @ [row]"
      and "reservations_id_seq d' = reservations_id_seq d + 1"
      unfolding d' f(1) by simp_all
    with assms f(2) have "cancelled_for_good d' i"
      by (auto simp: cancelled_for_good_def)
    with CallCreateReservation cr show ?thesis
      by (simp add: after_def)
  qed
next
  case (CallCancelReservation rid caller adm)
  show ?thesis
  proof (cases "CancelReservation d rid caller adm")
    case (Inl err)
    with assms CallCancelReservation show ?thesis by simp
  next
    case (Inr d')
    from CancelReservation_Inr [OF Inr] obtain x :: reservation_row where
      "d' = update_session (update_reservation d rid (\<lambda>old. old\<lparr>r_status := Cancelled\<rparr>))
              (r_session_id x) (\<lambda>old. old\<lparr>s_reserved_spots := max 0 (s_reserved_spots old - 1)\<rparr>)"
      by blast
    then have "reservations d' =
        map (\<lambda>r. if r_id r = rid then r\<lparr>r_status := Cancelled\<rparr> else r) (reservations d)"
      and "reservations_id_seq d' = reservations_id_seq d"
      by simp_all
    with assms have "cancelled_for_good d' i"
      by (auto simp: cancelled_for_good_def)
    with CallCancelReservation Inr show ?thesis
      by simp
  qed
qed

lemma cancelled_for_good_run:
  "cancelled_for_good d i \<Longrightarrow> cancelled_for_good (run tin fmt d cs) i"
  by (induction cs arbitrary: d) (simp_all add: cancelled_for_good_apply_call)

text \<open>
  C6. Cancelling a reservation that is already cancelled fails for every caller and leaves
  the database, and with it every counter, as it was; for the owner and for an admin, who
  pass the permission check, the failure is \<open>FailedPrecondition\<close>. A cancellation that
  succeeds takes a confirmed reservation to cancelled. From a database that meets the
  schema's constraints, a cancelled reservation is cancelled after every sequence of calls,
  as long as its row exists: no call takes it back to confirmed.
\<close>

theorem cancel_is_final:
  "(find_reservation d rid = Some r \<and> r_status r = Cancelled \<and>
    (r_user_id r = caller \<or> is_admin) \<longrightarrow>
      CancelReservation d rid caller is_admin = Inl FailedPrecondition) \<and>
   (find_reservation d rid = Some r \<and> r_status r = Cancelled \<longrightarrow>
      CancelReservation d rid caller is_admin \<in> {Inl PermissionDenied, Inl FailedPrecondition} \<and>
      apply_call tin fmt d (CallCancelReservation rid caller is_admin) = d) \<and>
   (schema_ok d \<and> CancelReservation d rid caller is_admin = Inr d' \<longrightarrow>
      map_option r_status (find_reservation d rid) = Some Confirmed \<and>
      map_option r_status (find_reservation d' rid) = Some Cancelled) \<and>
   (schema_ok d \<and> x \<in> set (reservations d) \<and> r_status x = Cancelled \<and>
    y \<in> set (reservations (run tin fmt d cs)) \<and> r_id y = r_id x \<longrightarrow>
      r_status y = Cancelled)"
proof (intro conjI impI)
  assume "find_reservation d rid = Some r \<and> r_status r = Cancelled \<and>
    (r_user_id r = caller \<or> is_admin)"
  then show "CancelReservation d rid caller is_admin = Inl FailedPrecondition"
    by (auto simp: CancelReservation_def)
next
  assume h: "find_reservation d rid = Some r \<and> r_status r = Cancelled"
  then show "CancelReservation d rid caller is_admin \<in> {Inl PermissionDenied, Inl FailedPrecondition}"
    by (simp add: CancelReservation_def)
  then show "apply_call tin fmt d (CallCancelReservation rid caller is_admin) = d"
    by auto
next
  assume h: "schema_ok d \<and> CancelReservation d rid caller is_admin = Inr d'"
  with CancelReservation_Inr [of d rid caller is_admin d'] obtain z :: reservation_row where
    z: "find_reservation d rid = Some z" "r_status z = Confirmed" and
    d': "d' = update_session (update_reservation d rid (\<lambda>old. old\<lparr>r_status := Cancelled\<rparr>))
              (r_session_id z) (\<lambda>old. old\<lparr>s_reserved_spots := max 0 (s_reserved_spots old - 1)\<rparr>)"
    by blast
  from z show "map_option r_status (find_reservation d rid) = Some Confirmed"
    by simp
  have "find (\<lambda>r. r_id r = rid) (map (\<lambda>r. if r_id r = rid then f r else r) xs) =
        map_option f (find (\<lambda>r. r_id r = rid) xs)"
    if "\<And>r. r_id (f r) = r_id r" for f :: "reservation_row \<Rightarrow> reservation_row" and xs
    using that by (induction xs) simp_all
  from this [of "\<lambda>old. old\<lparr>r_status := Cancelled\<rparr>" "reservations d"] z
  show "map_option r_status (find_reservation d' rid) = Some Cancelled"
    unfolding d' by (simp add: find_reservation_def)
next
  assume h: "schema_ok d \<and> x \<in> set (reservations d) \<and> r_status x = Cancelled \<and>
    y \<in> set (reservations (run tin fmt d cs)) \<and> r_id y = r_id x"
  then have "cancelled_for_good d (r_id x)"
    by (simp add: cancelled_for_good_start)
  then have "cancelled_for_good (run tin fmt d cs) (r_id x)"
    by (rule cancelled_for_good_run)
  with h show "r_status y = Cancelled"
    by (auto simp: cancelled_for_good_def)
qed

theorem cancel_is_final_witness:
  "CancelReservation cancelled_db 1 ''user-A'' False = Inl FailedPrecondition \<and>
   apply_call sample_timestamp_in sample_formatTimestamp cancelled_db
     (CallCancelReservation 1 ''user-A'' False) = cancelled_db \<and>
   map_option r_status (find_reservation reserved_db 1) = Some Confirmed \<and>
   map_option r_status (find_reservation cancelled_db 1) = Some Cancelled \<and>
   r_status (res_A\<lparr>r_status := Cancelled\<rparr>) = Cancelled"
proof -
  let ?c = "res_A\<lparr>r_status := Cancelled\<rparr>"
  have h1: "find_reservation cancelled_db 1 = Some ?c \<and> r_status ?c = Cancelled \<and>
    (r_user_id ?c = ''user-A'' \<or> False)"
    by code_simp
  have h2: "schema_ok reserved_db \<and> CancelReservation reserved_db 1 ''user-A'' False = Inr cancelled_db"
    by code_simp
  have h3: "schema_ok cancelled_db \<and> ?c \<in> set (reservations cancelled_db) \<and>
    r_status ?c = Cancelled \<and>
    ?c \<in> set (reservations (run sample_timestamp_in sample_formatTimestamp cancelled_db
       [CallCreateReservation 1746101400 ''Bob'' 1 ''user-B'',
        CallCancelReservation 1 ''user-A'' False])) \<and> r_id ?c = r_id ?c"
    by code_simp
  from h1 have a: "CancelReservation cancelled_db 1 ''user-A'' False = Inl FailedPrecondition \<and>
   apply_call sample_timestamp_in sample_formatTimestamp cancelled_db
     (CallCancelReservation 1 ''user-A'' False) = cancelled_db"
    using cancel_is_final [where d = cancelled_db and rid = 1 and r = ?c
      and caller = "''user-A''" and is_admin = False and tin = sample_timestamp_in
      and fmt = sample_formatTimestamp]
    by blast
  from h2 have b: "map_option r_status (find_reservation reserved_db 1) = Some Confirmed \<and>
   map_option r_status (find_reservation cancelled_db 1) = Some Cancelled"
    using cancel_is_final [where d = reserved_db and rid = 1 and caller = "''user-A''"
      and is_admin = False and d' = cancelled_db]
    by blast
  from h3 have c: "r_status ?c = Cancelled"
    using cancel_is_final [where d = cancelled_db and x = ?c and y = ?c
      and tin = sample_timestamp_in and fmt = sample_formatTimestamp
      and cs = "[CallCreateReservation 1746101400 ''Bob'' 1 ''user-B'',
        CallCancelReservation 1 ''user-A'' False]"]
    by blast
  from a b c show ?thesis by blast
qed

text \<open>
  C7. An update whose capacity is below the counter of the session fails with
  \<open>FailedPrecondition\<close> and leaves the database as it was, whatever other fields it carries.
\<close>

theorem capacity_shrink_guard:
  "find_session d sid = Some s \<and> p_capacity p = Some c \<and> c < s_reserved_spots s \<longrightarrow>
     UpdateSession now d sid p = Inl FailedPrecondition \<and>
     apply_call tin fmt d (CallUpdateSession now sid p) = d"
  by (simp add: UpdateSession_def Let_def or_else_def after_def)

theorem capacity_shrink_guard_witness:
  "UpdateSession 1746101400 reserved_db 1
     \<lparr>p_title = Some ''Evening Yoga'', p_description = None, p_coach_id = None,
      p_capacity = Some 0, p_start_time = None, p_end_time = None, p_location = None,
      p_session_type = None, p_difficulty_level = None, p_is_cancelled = None\<rparr>
     = Inl FailedPrecondition \<and>
   apply_call sample_timestamp_in sample_formatTimestamp reserved_db
     (CallUpdateSession 1746101400 1
       \<lparr>p_title = Some ''Evening Yoga'', p_description = None, p_coach_id = None,
        p_capacity = Some 0, p_start_time = None, p_end_time = None, p_location = None,
        p_session_type = None, p_difficulty_level = None, p_is_cancelled = None\<rparr>)
     = reserved_db"
proof -
  let ?p = "\<lparr>p_title = Some ''Evening Yoga'', p_description = None, p_coach_id = None,
      p_capacity = Some 0, p_start_time = None, p_end_time = None, p_location = None,
      p_session_type = None, p_difficulty_level = None, p_is_cancelled = None\<rparr>"
  have h: "find_session reserved_db 1 = Some (yoga_row\<lparr>s_reserved_spots := 1\<rparr>) \<and>
    p_capacity ?p = Some 0 \<and> 0 < s_reserved_spots (yoga_row\<lparr>s_reserved_spots := 1\<rparr>)"
    by code_simp
  from h capacity_shrink_guard [where d = reserved_db and sid = 1
      and s = "yoga_row\<lparr>s_reserved_spots := 1\<rparr>" and p = ?p and c = 0 and now = 1746101400
      and tin = sample_timestamp_in and fmt = sample_formatTimestamp]
  show ?thesis by blast
qed

section \<open>Creating a session\<close>

text \<open>
  C8, as the service and its store have it. A request that passes the guard (the required
  fields are non-empty, the capacity is at least 1) is answered with the session exactly
  when the store accepts the insert: every text passes the store's check, both times
  convert, and title, coach id, location, session type and difficulty level fit their
  columns, if need be after the store has cut spaces beyond the width. Then the id is the
  next value of the sequence, printed in decimal, both timestamps are the time of the
  insert, the counter is 0, and every other field of the response but the coach name is the
  one of the request, as submitted. The row stored has a counter of 0, the texts as their
  columns hold them, and an id that is not the id of an earlier session. When the store
  refuses the insert, the request is answered with \<open>Internal\<close> and the database is as it
  was.
\<close>

theorem create_session_outcome:
  "(req_Title req \<noteq> [] \<and> req_CoachId req \<noteq> [] \<and> 1 \<le> req_Capacity req \<and>
    req_StartTime req \<noteq> [] \<and> req_EndTime req \<noteq> [] \<and> req_Location req \<noteq> [] \<and>
    req_SessionType req \<noteq> [] \<and> req_DifficultyLevel req \<noteq> [] \<and>
    request_texts_ok req \<and>
    timestamp_in (req_StartTime req) = Some st \<and> timestamp_in (req_EndTime req) = Some et \<and>
    varchar_in 255 (req_Title req) = Inr title \<and>
    varchar_in 100 (req_CoachId req) = Inr coach_id \<and>
    varchar_in 255 (req_Location req) = Inr location \<and>
    varchar_in 100 (req_SessionType req) = Inr session_type \<and>
    varchar_in 50 (req_DifficultyLevel req) = Inr difficulty_level \<longrightarrow>
      CreateSession timestamp_in formatTimestamp now d req =
        Inr (\<lparr>Id = Sprint (sessions_id_seq d), Title = req_Title req,
               Description = req_Description req, CoachId = req_CoachId req,
               CoachName = ''Coach Name'', Capacity = req_Capacity req, ReservedSpots = 0,
               StartTime = req_StartTime req, EndTime = req_EndTime req,
               Location = req_Location req, SessionType = req_SessionType req,
               DifficultyLevel = req_DifficultyLevel req, IsCancelled = False,
               CreatedAt = formatTimestamp now, UpdatedAt = formatTimestamp now\<rparr>,
             d\<lparr>sessions := sessions d @
                  [\<lparr>s_id = sessions_id_seq d, s_title = title,
                    s_description = req_Description req, s_coach_id = coach_id,
                    s_coach_name = ''Coach Name'', s_capacity = req_Capacity req,
                    s_reserved_spots = 0, s_start_time = st, s_end_time = et,
                    s_location = location, s_session_type = session_type,
                    s_difficulty_level = difficulty_level, s_is_cancelled = False,
                    s_created_at = now, s_updated_at = now\<rparr>],
               sessions_id_seq := sessions_id_seq d + 1\<rparr>) \<and>
      (schema_ok d \<longrightarrow> sessions_id_seq d \<notin> set (map s_id (sessions d)))) \<and>
   (req_Title req \<noteq> [] \<and> req_CoachId req \<noteq> [] \<and> 1 \<le> req_Capacity req \<and>
    req_StartTime req \<noteq> [] \<and> req_EndTime req \<noteq> [] \<and> req_Location req \<noteq> [] \<and>
    req_SessionType req \<noteq> [] \<and> req_DifficultyLevel req \<noteq> [] \<and>
    (\<not> request_texts_ok req \<or>
     timestamp_in (req_StartTime req) = None \<or> timestamp_in (req_EndTime req) = None \<or>
     varchar_in 255 (req_Title req) = Inl StringDataRightTruncation \<or>
     varchar_in 100 (req_CoachId req) = Inl StringDataRightTruncation \<or>
     varchar_in 255 (req_Location req) = Inl StringDataRightTruncation \<or>
     varchar_in 100 (req_SessionType req) = Inl StringDataRightTruncation \<or>
     varchar_in 50 (req_DifficultyLevel req) = Inl StringDataRightTruncation) \<longrightarrow>
      CreateSession timestamp_in formatTimestamp now d req = Inl Internal \<and>
      apply_call timestamp_in formatTimestamp d (CallCreateSession now req) = d)"
  (is "(?valid \<and> ?taken \<longrightarrow> ?created \<and> ?fresh) \<and> (?valid \<and> ?refused \<longrightarrow> ?internal \<and> ?same)")
proof (rule conjI)
  show "?valid \<and> ?taken \<longrightarrow> ?created \<and> ?fresh"
  proof
    assume h: "?valid \<and> ?taken"
    then have ok: "\<not> missing_required_fields req"
      by (simp add: missing_required_fields_def)
    from h ok have ?created
      by (simp add: CreateSession_def insert_session_def sessions_varchar_in_def
            request_texts_ok_def coach_name_literal)
    moreover have ?fresh
      by (auto simp: schema_ok_def)
    ultimately show "?created \<and> ?fresh" ..
  qed
next
  show "?valid \<and> ?refused \<longrightarrow> ?internal \<and> ?same"
  proof
    assume h: "?valid \<and> ?refused"
    then have ok: "\<not> missing_required_fields req"
      by (simp add: missing_required_fields_def)
    from h have "\<exists>err. insert_session timestamp_in now d (req_Title req) (req_Description req)
        (req_CoachId req) ''Coach Name'' (req_Capacity req) (req_StartTime req) (req_EndTime req)
        (req_Location req) (req_SessionType req) (req_DifficultyLevel req) = Inl err"
      by (auto simp: insert_session_def sessions_varchar_in_def request_texts_ok_def
            coach_name_literal split: option.splits sum.splits)
    with ok have i: ?internal
      by (auto simp: CreateSession_def)
    then have ?same
      by (simp add: after_def)
    with i show "?internal \<and> ?same" ..
  qed
qed

theorem create_session_outcome_witness:
  "CreateSession sample_timestamp_in sample_formatTimestamp 1746100800 empty_db yoga_request =
     Inr (yoga_session, yoga_db) \<and>
   sessions_id_seq empty_db \<notin> set (map s_id (sessions empty_db)) \<and>
   CreateSession sample_timestamp_in sample_formatTimestamp 1746100800 yoga_db wide_request =
     Inl Internal \<and>
   apply_call sample_timestamp_in sample_formatTimestamp yoga_db
     (CallCreateSession 1746100800 wide_request) = yoga_db"
proof -
  have g: "req_Title yoga_request \<noteq> [] \<and> req_CoachId yoga_request \<noteq> [] \<and>
   1 \<le> req_Capacity yoga_request \<and>
   req_StartTime yoga_request \<noteq> [] \<and> req_EndTime yoga_request \<noteq> [] \<and>
   req_Location yoga_request \<noteq> [] \<and>
   req_SessionType yoga_request \<noteq> [] \<and> req_DifficultyLevel yoga_request \<noteq> []"
    by code_simp
  have h: "request_texts_ok yoga_request \<and>
   sample_timestamp_in (req_StartTime yoga_request) = Some 1747296000 \<and>
   sample_timestamp_in (req_EndTime yoga_request) = Some 1747299600 \<and>
   varchar_in 255 (req_Title yoga_request) = Inr ''Morning Yoga'' \<and>
   varchar_in 100 (req_CoachId yoga_request) = Inr ''coach-7'' \<and>
   varchar_in 255 (req_Location yoga_request) = Inr ''Studio A'' \<and>
   varchar_in 100 (req_SessionType yoga_request) = Inr ''yoga'' \<and>
   varchar_in 50 (req_DifficultyLevel yoga_request) = Inr ''intermediate''"
    by code_simp
  have s: "schema_ok empty_db"
    by code_simp
  have v: "\<lparr>Id = Sprint (sessions_id_seq empty_db), Title = req_Title yoga_request,
              Description = req_Description yoga_request, CoachId = req_CoachId yoga_request,
              CoachName = ''Coach Name'', Capacity = req_Capacity yoga_request, ReservedSpots = 0,
              StartTime = req_StartTime yoga_request, EndTime = req_EndTime yoga_request,
              Location = req_Location yoga_request, SessionType = req_SessionType yoga_request,
              DifficultyLevel = req_DifficultyLevel yoga_request, IsCancelled = False,
              CreatedAt = sample_formatTimestamp 1746100800,
              UpdatedAt = sample_formatTimestamp 1746100800\<rparr> = yoga_session"
    by code_simp
  have w: "empty_db\<lparr>sessions := sessions empty_db @
                 [\<lparr>s_id = sessions_id_seq empty_db, s_title = ''Morning Yoga'',
                   s_description = req_Description yoga_request,
                   s_coach_id = ''coach-7'',
                   s_coach_name = ''Coach Name'', s_capacity = req_Capacity yoga_request,
                   s_reserved_spots = 0, s_start_time = 1747296000, s_end_time = 1747299600,
                   s_location = ''Studio A'',
                   s_session_type = ''yoga'',
                   s_difficulty_level = ''intermediate'', s_is_cancelled = False,
                   s_created_at = 1746100800, s_updated_at = 1746100800\<rparr>],
              sessions_id_seq := sessions_id_seq empty_db + 1\<rparr> = yoga_db"
    by code_simp
  have g2: "req_Title wide_request \<noteq> [] \<and> req_CoachId wide_request \<noteq> [] \<and>
   1 \<le> req_Capacity wide_request \<and>
   req_StartTime wide_request \<noteq> [] \<and> req_EndTime wide_request \<noteq> [] \<and>
   req_Location wide_request \<noteq> [] \<and>
   req_SessionType wide_request \<noteq> [] \<and> req_DifficultyLevel wide_request \<noteq> []"
    by code_simp
  have r: "varchar_in 50 (req_DifficultyLevel wide_request) = Inl StringDataRightTruncation"
    by code_simp
  from g h s create_session_outcome [where req = yoga_request
      and timestamp_in = sample_timestamp_in and st = 1747296000 and et = 1747299600
      and title = "''Morning Yoga''" and coach_id = "''coach-7''" and location = "''Studio A''"
      and session_type = "''yoga''" and difficulty_level = "''intermediate''"
      and formatTimestamp = sample_formatTimestamp and now = 1746100800 and d = empty_db]
  have a: "CreateSession sample_timestamp_in sample_formatTimestamp 1746100800 empty_db
      yoga_request = Inr (yoga_session, yoga_db) \<and>
   sessions_id_seq empty_db \<notin> set (map s_id (sessions empty_db))"
    unfolding v w by blast
  from g2 r create_session_outcome [where req = wide_request
      and timestamp_in = sample_timestamp_in and formatTimestamp = sample_formatTimestamp
      and now = 1746100800 and d = yoga_db]
  have b: "CreateSession sample_timestamp_in sample_formatTimestamp 1746100800 yoga_db
      wide_request = Inl Internal \<and>
   apply_call sample_timestamp_in sample_formatTimestamp yoga_db
     (CallCreateSession 1746100800 wide_request) = yoga_db"
    by blast
  from a b show ?thesis by blast
qed

text \<open>
  Two requests whose required fields are all present and whose capacity is 15, one with a
  difficulty level of 51 letters and one with a zero byte in its title: the store refuses
  the insert,
  the request is answered with \<open>Internal\<close> and no session is stored.
\<close>

theorem valid_request_refused_counterexample:
  "\<not> missing_required_fields wide_request \<and> req_Capacity wide_request = 15 \<and>
   CreateSession sample_timestamp_in sample_formatTimestamp 1746100800 empty_db wide_request
     = Inl Internal \<and>
   apply_call sample_timestamp_in sample_formatTimestamp empty_db
     (CallCreateSession 1746100800 wide_request) = empty_db \<and>
   \<not> missing_required_fields nul_request \<and> req_Capacity nul_request = 15 \<and>
   CreateSession sample_timestamp_in sample_formatTimestamp 1746100800 empty_db nul_request
     = Inl Internal \<and>
   apply_call sample_timestamp_in sample_formatTimestamp empty_db
     (CallCreateSession 1746100800 nul_request) = empty_db"
  by code_simp

text \<open>
  C10. Whatever the request, a session that is created is stored and returned with the
  coach name \<open>Coach Name\<close>; the coach id of the request is returned next to it, and stored
  as its column holds it, and has no part in the name.
\<close>

theorem coach_name_is_constant:
  "CreateSession timestamp_in formatTimestamp now d req = Inr (sess, d') \<longrightarrow>
     CoachName sess = ''Coach Name'' \<and> CoachId sess = req_CoachId req \<and>
     (\<exists>row. sessions d' = sessions d @ [row] \<and> s_coach_name row = ''Coach Name'' \<and>
            varchar_in 100 (req_CoachId req) = Inr (s_coach_id row))"
proof
  assume h: "CreateSession timestamp_in formatTimestamp now d req = Inr (sess, d')"
  from CreateSession_Inr [OF h] obtain x where
    ins: "insert_session timestamp_in now d (req_Title req) (req_Description req)
       (req_CoachId req) ''Coach Name'' (req_Capacity req) (req_StartTime req) (req_EndTime req)
       (req_Location req) (req_SessionType req) (req_DifficultyLevel req) = Inr (x, d')"
    by blast
  from insert_session_Inr [OF ins] obtain row where
    row: "d' = d\<lparr>sessions := sessions d @ [row], sessions_id_seq := sessions_id_seq d + 1\<rparr>"
      "varchar_in 255 ''Coach Name'' = Inr (s_coach_name row)"
      "varchar_in 100 (req_CoachId req) = Inr (s_coach_id row)"
    by blast
  from row(2) have name: "s_coach_name row = ''Coach Name''"
    by (simp add: coach_name_literal)
  from h have resp: "CoachName sess = ''Coach Name'' \<and> CoachId sess = req_CoachId req"
    by (auto simp: CreateSession_def split: if_splits sum.splits)
  from row(1) have "sessions d' = sessions d @ [row]"
    by simp
  with name row(3) have "\<exists>row. sessions d' = sessions d @ [row] \<and>
      s_coach_name row = ''Coach Name'' \<and> varchar_in 100 (req_CoachId req) = Inr (s_coach_id row)"
    by blast
  with resp show "CoachName sess = ''Coach Name'' \<and> CoachId sess = req_CoachId req \<and>
     (\<exists>row. sessions d' = sessions d @ [row] \<and> s_coach_name row = ''Coach Name'' \<and>
            varchar_in 100 (req_CoachId req) = Inr (s_coach_id row))"
    by simp
qed

theorem coach_name_is_constant_witness:
  "CoachName yoga_session = ''Coach Name'' \<and> CoachId yoga_session = ''coach-7'' \<and>
   (\<exists>row. sessions yoga_db = sessions empty_db @ [row] \<and> s_coach_name row = ''Coach Name'' \<and>
          varchar_in 100 ''coach-7'' = Inr (s_coach_id row))"
proof -
  have h: "CreateSession sample_timestamp_in sample_formatTimestamp 1746100800 empty_db
      yoga_request = Inr (yoga_session, yoga_db)"
    by code_simp
  have v: "req_CoachId yoga_request = ''coach-7''"
    by code_simp
  from h coach_name_is_constant [where timestamp_in = sample_timestamp_in
      and formatTimestamp = sample_formatTimestamp and now = 1746100800 and d = empty_db
      and req = yoga_request and sess = yoga_session and d' = yoga_db]
  show ?thesis unfolding v by blast
qed

section \<open>The guard of CreateSession and the gateway's status codes\<close>

text \<open>
  C4, as the service has it. A request with an empty title, coach id, start time, end time,
  location, session type or difficulty level, or with a capacity below 1, fails with
  \<open>InvalidArgument\<close> and the database is as it was. No other request fails with
  \<open>InvalidArgument\<close>: the guard does not compare the two times.
\<close>

theorem create_session_guard:
  "(req_Title req = [] \<or> req_CoachId req = [] \<or> req_Capacity req < 1 \<or>
    req_StartTime req = [] \<or> req_EndTime req = [] \<or> req_Location req = [] \<or>
    req_SessionType req = [] \<or> req_DifficultyLevel req = [] \<longrightarrow>
      CreateSession timestamp_in formatTimestamp now d req = Inl InvalidArgument \<and>
      apply_call timestamp_in formatTimestamp d (CallCreateSession now req) = d) \<and>
   (CreateSession timestamp_in formatTimestamp now d req = Inl InvalidArgument \<longrightarrow>
      req_Title req = [] \<or> req_CoachId req = [] \<or> req_Capacity req < 1 \<or>
      req_StartTime req = [] \<or> req_EndTime req = [] \<or> req_Location req = [] \<or>
      req_SessionType req = [] \<or> req_DifficultyLevel req = [])"
proof (intro conjI impI)
  assume "req_Title req = [] \<or> req_CoachId req = [] \<or> req_Capacity req < 1 \<or>
    req_StartTime req = [] \<or> req_EndTime req = [] \<or> req_Location req = [] \<or>
    req_SessionType req = [] \<or> req_DifficultyLevel req = []"
  then have "missing_required_fields req"
    by (simp add: missing_required_fields_def)
  then show "CreateSession timestamp_in formatTimestamp now d req = Inl InvalidArgument"
    by (simp add: CreateSession_def)
  then show "apply_call timestamp_in formatTimestamp d (CallCreateSession now req) = d"
    by (simp add: after_def)
next
  assume "CreateSession timestamp_in formatTimestamp now d req = Inl InvalidArgument"
  then have "missing_required_fields req"
    by (auto simp: CreateSession_def split: if_splits sum.splits)
  then show "req_Title req = [] \<or> req_CoachId req = [] \<or> req_Capacity req < 1 \<or>
      req_StartTime req = [] \<or> req_EndTime req = [] \<or> req_Location req = [] \<or>
      req_SessionType req = [] \<or> req_DifficultyLevel req = []"
    by (simp add: missing_required_fields_def)
qed

theorem create_session_guard_witness:
  "CreateSession sample_timestamp_in sample_formatTimestamp 1746100800 yoga_db
     (yoga_request\<lparr>req_Capacity := 0\<rparr>) = Inl InvalidArgument \<and>
   apply_call sample_timestamp_in sample_formatTimestamp yoga_db
     (CallCreateSession 1746100800 (yoga_request\<lparr>req_Capacity := 0\<rparr>)) = yoga_db \<and>
   req_Capacity (yoga_request\<lparr>req_Capacity := 0\<rparr>) < 1"
proof -
  let ?r = "yoga_request\<lparr>req_Capacity := 0\<rparr>"
  have h: "req_Capacity ?r < 1"
    by code_simp
  have v: "req_Title ?r \<noteq> [] \<and> req_CoachId ?r \<noteq> [] \<and> req_StartTime ?r \<noteq> [] \<and>
    req_EndTime ?r \<noteq> [] \<and> req_Location ?r \<noteq> [] \<and> req_SessionType ?r \<noteq> [] \<and>
    req_DifficultyLevel ?r \<noteq> []"
    by code_simp
  from h v create_session_guard [where req = ?r and timestamp_in = sample_timestamp_in
      and formatTimestamp = sample_formatTimestamp and now = 1746100800 and d = yoga_db]
  show ?thesis by blast
qed

text \<open>
  A request that ends an hour before it starts is not refused: the session is created and
  stored with its end before its start.
\<close>

theorem end_before_start_counterexample:
  "CreateSession sample_timestamp_in sample_formatTimestamp 1746100800 empty_db backwards_request
     = Inr (yoga_session\<lparr>StartTime := ''2025-05-15T09:00:00Z'', EndTime := ''2025-05-15T08:00:00Z''\<rparr>,
            backwards_db) \<and>
   map s_start_time (sessions backwards_db) = [1747299600] \<and>
   map s_end_time (sessions backwards_db) = [1747296000]"
  by code_simp

text \<open>
  C5, as the gateway has it. Not-found is answered with 404, already-exists with 409,
  permission-denied with 403; every other code, among them invalid-argument,
  resource-exhausted, failed-precondition and internal, is answered with 500.
\<close>

theorem gateway_status_mapping:
  "fst (handleGrpcError NotFound) = 404 \<and>
   fst (handleGrpcError AlreadyExists) = 409 \<and>
   fst (handleGrpcError PermissionDenied) = 403 \<and>
   fst (handleGrpcError Internal) = 500 \<and>
   fst (handleGrpcError InvalidArgument) = 500 \<and>
   fst (handleGrpcError ResourceExhausted) = 500 \<and>
   fst (handleGrpcError FailedPrecondition) = 500 \<and>
   (fst (handleGrpcError code) = 500) = (code \<notin> {NotFound, AlreadyExists, PermissionDenied}) \<and>
   fst (handleGrpcError code) \<in> {404, 409, 403, 500}"
  by (simp add: handleGrpcError_def)

text \<open>
  Invalid-argument is answered with 500 and not with 400, resource-exhausted with 500 and
  neither with 409 nor with 429.
\<close>

theorem invalid_argument_is_500_counterexample:
  "handleGrpcError InvalidArgument = (500, ''Internal server error'') \<and>
   handleGrpcError ResourceExhausted = (500, ''Internal server error'')"
  by (simp add: handleGrpcError_def)

end
